theory Spec2Isabelle
  imports Main "HOL-Library.AList"
begin

section \<open>JavaScript values, errors and strings\<close>

text \<open>
  The adapters are JavaScript (Node.js) programs. The values they inspect are the results of
  \<^verbatim>\<open>JSON.parse\<close>: tool arguments and response bodies. A value of type \<open>json\<close> is such a
  value; \<open>None :: json option\<close> is JavaScript's \<^verbatim>\<open>undefined\<close> (a missing property).

  A number is represented by the two observations the modelled code makes of it: whether it
  is truthy (neither zero nor NaN) and its rendering by \<^verbatim>\<open>String(n)\<close>. Strings are byte lists
  (UTF-8); the code never indexes into a string. \<open>JObj\<close> lists the properties of an object,
  each key once, in the order JavaScript enumerates them.
\<close>

datatype json =
    JNull
  | JBool bool
  | JNum bool string
  | JStr string
  | JArr "json list"
  | JObj "(string \<times> json) list"

type_synonym jsval = "json option"

text \<open>What \<^verbatim>\<open>throw\<close> carries: an \<^verbatim>\<open>Error\<close> made by the program, or a \<^verbatim>\<open>TypeError\<close> or
  \<^verbatim>\<open>SyntaxError\<close> raised by the runtime. The program only ever reads \<^verbatim>\<open>error.message\<close>.\<close>

datatype exn = Error string | TypeError string | SyntaxError string

fun message :: "exn \<Rightarrow> string" where
  "message (Error m) = m"
| "message (TypeError m) = m"
| "message (SyntaxError m) = m"

text \<open>Truthiness: \<^verbatim>\<open>!v\<close> is \<open>js_not v\<close>.\<close>

fun truthy :: "json \<Rightarrow> bool" where
  "truthy JNull = False"
| "truthy (JBool b) = b"
| "truthy (JNum nonzero shown) = nonzero"
| "truthy (JStr s) = (s \<noteq> [])"
| "truthy (JArr xs) = True"
| "truthy (JObj fs) = True"

definition js_not :: "jsval \<Rightarrow> bool" where
  "js_not v = (case v of None \<Rightarrow> True | Some j \<Rightarrow> \<not> truthy j)"

text \<open>Decimal rendering of a natural number (an HTTP status in a template literal).\<close>

definition digit_char :: "nat \<Rightarrow> char" where
  "digit_char d = ''0123456789'' ! d"

fun string_of_nat :: "nat \<Rightarrow> string" where
  "string_of_nat n =
     (if n < 10 then [digit_char n]
      else string_of_nat (n div 10) @ [digit_char (n mod 10)])"

declare string_of_nat.simps [simp del]

fun join :: "string \<Rightarrow> string list \<Rightarrow> string" where
  "join sep [] = []"
| "join sep [x] = x"
| "join sep (x # y # ys) = x @ sep @ join sep (y # ys)"

text \<open>The results of a list of evaluations done in order: the first throw ends them.\<close>

fun first_error :: "(exn + 'a) list \<Rightarrow> exn + 'a list" where
  "first_error [] = Inr []"
| "first_error (Inl e # rs) = Inl e"
| "first_error (Inr x # rs) = (case first_error rs of Inl e \<Rightarrow> Inl e | Inr xs \<Rightarrow> Inr (x # xs))"

text \<open>
  \<^verbatim>\<open>String(v)\<close>, the conversion a template literal \<^verbatim>\<open>`${v}`\<close> applies; it can throw. A parsed
  object inherits \<^verbatim>\<open>Object.prototype.toString\<close> and renders as \<^verbatim>\<open>[object Object]\<close>, unless it has
  a property \<^verbatim>\<open>toString\<close> of its own: that property is no function (nothing parsed is), the
  inherited \<^verbatim>\<open>valueOf\<close> returns the object itself, and the runtime throws a TypeError (V8's
  message). An array is its elements joined by commas, each converted in turn, \<^verbatim>\<open>null\<close>
  elements rendered empty.
\<close>

definition cannot_convert :: exn where
  "cannot_convert = TypeError ''Cannot convert object to primitive value''"

fun js_String :: "json \<Rightarrow> exn + string" where
  "js_String JNull = Inr ''null''"
| "js_String (JBool b) = Inr (if b then ''true'' else ''false'')"
| "js_String (JNum nonzero shown) = Inr shown"
| "js_String (JStr s) = Inr s"
| "js_String (JArr xs) =
     (case first_error (map (\<lambda>x. case x of JNull \<Rightarrow> Inr [] | _ \<Rightarrow> js_String x) xs) of
        Inl e \<Rightarrow> Inl e
      | Inr ss \<Rightarrow> Inr (join '','' ss))"
| "js_String (JObj fs) =
     (if map_of fs ''toString'' \<noteq> None then Inl cannot_convert else Inr ''[object Object]'')"

definition js_String_val :: "jsval \<Rightarrow> exn + string" where
  "js_String_val v = (case v of None \<Rightarrow> Inr ''undefined'' | Some j \<Rightarrow> js_String j)"

text \<open>Property access \<^verbatim>\<open>v.k\<close>, for a name \<open>k\<close> that no built-in prototype defines (the model
  reads \<^verbatim>\<open>access_token\<close>, \<^verbatim>\<open>expires_in\<close>, \<^verbatim>\<open>taskID\<close>, \<^verbatim>\<open>predecessorExpression\<close>, \<^verbatim>\<open>data\<close> and
  \<^verbatim>\<open>name\<close>):
  on \<^verbatim>\<open>undefined\<close> and \<^verbatim>\<open>null\<close> the runtime throws a TypeError (V8's message), on an
  object it is the property or \<^verbatim>\<open>undefined\<close>, on every other value it is \<^verbatim>\<open>undefined\<close>.\<close>

definition cannot_read :: "string \<Rightarrow> string \<Rightarrow> exn" where
  "cannot_read what k =
     TypeError (''Cannot read properties of '' @ what @ '' (reading '' @ [CHR 0x27] @ k @ [CHR 0x27] @ '')'')"

fun get_prop :: "string \<Rightarrow> jsval \<Rightarrow> exn + jsval" where
  "get_prop k None = Inl (cannot_read ''undefined'' k)"
| "get_prop k (Some JNull) = Inl (cannot_read ''null'' k)"
| "get_prop k (Some (JObj fs)) = Inr (map_of fs k)"
| "get_prop k (Some v) = Inr None"

text \<open>\<^verbatim>\<open>s.includes(sub)\<close>.\<close>

fun starts_with :: "string \<Rightarrow> string \<Rightarrow> bool" where
  "starts_with s [] = True"
| "starts_with [] (c # cs) = False"
| "starts_with (d # ds) (c # cs) = (d = c \<and> starts_with ds cs)"

fun js_includes :: "string \<Rightarrow> string \<Rightarrow> bool" where
  "js_includes [] sub = (sub = [])"
| "js_includes (d # ds) sub = (starts_with (d # ds) sub \<or> js_includes ds sub)"

text \<open>\<^verbatim>\<open>try { ... } catch (error) { ... }\<close> over a computation that returns its result, or what
  it threw, together with the state it left.\<close>

definition try_catch ::
  "(exn + 'a) \<times> 's \<Rightarrow> (exn \<Rightarrow> 's \<Rightarrow> (exn + 'a) \<times> 's) \<Rightarrow> (exn + 'a) \<times> 's" where
  "try_catch r handler = (case r of (Inl error, s) \<Rightarrow> handler error s | (Inr v, s) \<Rightarrow> (Inr v, s))"

section \<open>HTTP: requests, responses and the network\<close>

text \<open>
  A request is what one call of \<^verbatim>\<open>fetch(url, options)\<close> sends. A header object is an
  association list in insertion order; assigning to a key is \<open>AList.update\<close>.
\<close>

datatype body = URLSearchParams "(string \<times> string) list" | BodyString string

record request =
  url :: string
  http_method :: string
  headers :: "(string \<times> string) list"
  req_body :: "body option"

text \<open>
  A response as the adapters observe it: \<^verbatim>\<open>response.status\<close>,
  \<^verbatim>\<open>response.headers.get('content-type')\<close>, \<^verbatim>\<open>response.text()\<close> and \<^verbatim>\<open>response.json()\<close>, which
  rejects with a SyntaxError (\<open>Inl\<close> its message) when the body is not JSON. The body of a
  response that arrived is taken to be readable in full.
\<close>

record response =
  status :: nat
  content_type :: "string option"
  body_text :: string
  parsed :: "string + json"

definition ok :: "response \<Rightarrow> bool" where
  "ok r = (200 \<le> status r \<and> status r \<le> 299)"

text \<open>\<^verbatim>\<open>fetch\<close> rejects (a TypeError with a message) when no response arrives.\<close>

datatype fetch_result = Rejected string | Resolved response

text \<open>
  The mutable state of one adapter process: the cached token, \<^verbatim>\<open>WORKFRONT_CONFIG.bearerToken\<close>
  or \<^verbatim>\<open>AEM_CONFIG.bearerToken\<close> (\<open>JNull\<close> is the initial \<^verbatim>\<open>null\<close>), and the log of the calls of
  \<^verbatim>\<open>fetch\<close> the process has made, oldest first, each with the request it was given. The log
  is not in the source; it is what the properties about network calls are stated on.

  The network is a parameter: \<open>net k\<close> is the outcome of the process's \<open>k\<close>-th call of
  \<^verbatim>\<open>fetch\<close>, counting from 0, a rejection (no connection, a request \<^verbatim>\<open>fetch\<close> refuses) or a
  response. Every theorem holds for every network, so for every sequence of outcomes. Tool
  invocations run one after the other: two invocations interleaved at their \<^verbatim>\<open>await\<close>s are
  not modelled.
\<close>

record state =
  bearerToken :: json
  sent :: "request list"

type_synonym network = "nat \<Rightarrow> fetch_result"

definition fetch :: "network \<Rightarrow> request \<Rightarrow> state \<Rightarrow> fetch_result \<times> state" where
  "fetch net req st = (net (length (sent st)), st\<lparr>sent := sent st @ [req]\<rparr>)"

definition initial_state :: state where
  "initial_state = \<lparr>bearerToken = JNull, sent = []\<rparr>"

section \<open>Configuration and startup\<close>

text \<open>\<^verbatim>\<open>process.env\<close> after \<^verbatim>\<open>dotenv\<close> has loaded the \<^verbatim>\<open>.env\<close> file.\<close>

type_synonym env = "string \<Rightarrow> string option"

text \<open>\<^verbatim>\<open>!process.env[varName]\<close>: the variable is unset or empty.\<close>

definition env_missing :: "env \<Rightarrow> string \<Rightarrow> bool" where
  "env_missing e varName = (case e varName of None \<Rightarrow> True | Some s \<Rightarrow> s = [])"

text \<open>\<^verbatim>\<open>process.env[varName] || dflt\<close>.\<close>

definition env_or :: "env \<Rightarrow> string \<Rightarrow> string \<Rightarrow> string" where
  "env_or e varName dflt = (case e varName of None \<Rightarrow> dflt | Some s \<Rightarrow> if s = [] then dflt else s)"

text \<open>\<^verbatim>\<open>process.env[varName]\<close> where the startup check has passed, so the variable is set.\<close>

definition env_get :: "env \<Rightarrow> string \<Rightarrow> string" where
  "env_get e varName = (case e varName of None \<Rightarrow> ''undefined'' | Some s \<Rightarrow> s)"

record imsConfig =
  tokenUrl :: string
  clientId :: string
  clientSecret :: string
  scope :: string

record config =
  baseUrl :: string
  ims :: imsConfig

datatype 'c startup = Exit nat | Loaded 'c

section \<open>The Workfront adapter\<close>

definition wf_requiredEnvVars :: "string list" where
  "wf_requiredEnvVars = [''WORKFRONT_BASE_URL'', ''ADOBE_IMS_CLIENT_ID'', ''ADOBE_IMS_CLIENT_SECRET'']"

definition wf_missingEnvVars :: "env \<Rightarrow> string list" where
  "wf_missingEnvVars e = filter (\<lambda>varName. env_missing e varName) wf_requiredEnvVars"

definition WORKFRONT_CONFIG :: "env \<Rightarrow> config" where
  "WORKFRONT_CONFIG e =
     \<lparr> baseUrl = env_get e ''WORKFRONT_BASE_URL'',
       ims = \<lparr> tokenUrl = env_or e ''ADOBE_IMS_TOKEN_URL'' ''https://ims-na1.adobelogin.com/ims/token/v3'',
               clientId = env_get e ''ADOBE_IMS_CLIENT_ID'',
               clientSecret = env_get e ''ADOBE_IMS_CLIENT_SECRET'',
               scope = env_or e ''ADOBE_IMS_SCOPES''
                 ''openid,AdobeID,session,additional_info.projectedProductContext,profile,read_organizations,additional_info.roles'' \<rparr> \<rparr>"

text \<open>The top of the module: the check of the required variables, \<^verbatim>\<open>process.exit(1)\<close> when one
  is missing, the configuration otherwise.\<close>

definition wf_load :: "env \<Rightarrow> config startup" where
  "wf_load e = (if length (wf_missingEnvVars e) > 0 then Exit 1 else Loaded (WORKFRONT_CONFIG e))"

subsection \<open>Token manager\<close>

text \<open>The token request of \<^verbatim>\<open>getBearerToken\<close>: the body is the \<^verbatim>\<open>URLSearchParams\<close> object.\<close>

definition wf_token_request :: "config \<Rightarrow> request" where
  "wf_token_request cfg =
     \<lparr> url = tokenUrl (ims cfg),
       http_method = ''POST'',
       headers = [(''Content-Type'', ''application/x-www-form-urlencoded'')],
       req_body = Some (URLSearchParams
         [(''grant_type'', ''client_credentials''),
          (''client_id'', clientId (ims cfg)),
          (''client_secret'', clientSecret (ims cfg)),
          (''scope'', scope (ims cfg))]) \<rparr>"

text \<open>
  The argument of the \<^verbatim>\<open>console.error\<close> that follows the store in both adapters' \<^verbatim>\<open>getBearerToken\<close>:
  \<^verbatim>\<open>`Token retrieved successfully. Expires in ${data.expires_in} seconds`\<close>. The line goes to
  the standard error stream, which the state does not record; evaluating it can throw.
\<close>

definition token_log :: "json \<Rightarrow> exn + string" where
  "token_log data =
     (case get_prop ''expires_in'' (Some data) of
        Inl error \<Rightarrow> Inl error
      | Inr expires_in \<Rightarrow>
          (case js_String_val expires_in of
             Inl error \<Rightarrow> Inl error
           | Inr shown \<Rightarrow> Inr (''Token retrieved successfully. Expires in '' @ shown @ '' seconds'')))"

text \<open>The \<^verbatim>\<open>try\<close> block of \<^verbatim>\<open>getBearerToken\<close> (\<^verbatim>\<open>acquire()\<close> in the specification).\<close>

definition wf_getBearerToken_try :: "config \<Rightarrow> network \<Rightarrow> state \<Rightarrow> (exn + json) \<times> state" where
  "wf_getBearerToken_try cfg net st =
     (case fetch net (wf_token_request cfg) st of
        (Rejected m, st1) \<Rightarrow> (Inl (TypeError m), st1)
      | (Resolved response, st1) \<Rightarrow>
          if \<not> ok response then
            (Inl (Error (''Adobe IMS authentication error: '' @ string_of_nat (status response)
                          @ '' - '' @ body_text response)), st1)
          else
            (case parsed response of
               Inl m \<Rightarrow> (Inl (SyntaxError m), st1)
             | Inr data \<Rightarrow>
                 (case get_prop ''access_token'' (Some data) of
                    Inl error \<Rightarrow> (Inl error, st1)
                  | Inr None \<Rightarrow> (Inl (Error ''No access_token received from Adobe IMS''), st1)
                  | Inr (Some access_token) \<Rightarrow>
                      if \<not> truthy access_token then
                        (Inl (Error ''No access_token received from Adobe IMS''), st1)
                      else
                        (case token_log data of
                           Inl error \<Rightarrow> (Inl error, st1\<lparr>bearerToken := access_token\<rparr>)
                         | Inr line \<Rightarrow> (Inr access_token, st1\<lparr>bearerToken := access_token\<rparr>)))))"

definition wf_getBearerToken :: "config \<Rightarrow> network \<Rightarrow> state \<Rightarrow> (exn + json) \<times> state" where
  "wf_getBearerToken cfg net st =
     try_catch (wf_getBearerToken_try cfg net st)
       (\<lambda>error s. (Inl (Error (''Token retrieval error: '' @ message error)), s))"

text \<open>\<^verbatim>\<open>ensureValidToken\<close> (\<^verbatim>\<open>ensureValid()\<close>).\<close>

definition wf_ensureValidToken :: "config \<Rightarrow> network \<Rightarrow> state \<Rightarrow> (exn + json) \<times> state" where
  "wf_ensureValidToken cfg net st =
     (if \<not> truthy (bearerToken st) then
        (case wf_getBearerToken cfg net st of
           (Inl error, st1) \<Rightarrow> (Inl error, st1)
         | (Inr t, st1) \<Rightarrow> (Inr (bearerToken st1), st1))
      else (Inr (bearerToken st), st))"

subsection \<open>Authenticated requests\<close>

text \<open>The \<^verbatim>\<open>options\<close> argument of \<^verbatim>\<open>makeWorkfrontRequest\<close>; \<open>None\<close> is a property the caller
  did not give.\<close>

record options =
  opt_method :: "string option"
  opt_headers :: "(string \<times> string) list option"
  opt_body :: "body option"

definition no_options :: options where
  "no_options = \<lparr>opt_method = None, opt_headers = None, opt_body = None\<rparr>"

text \<open>\<^verbatim>\<open>{ ...a, ...b }\<close> on header objects.\<close>

definition spread :: "(string \<times> string) list \<Rightarrow> (string \<times> string) list \<Rightarrow> (string \<times> string) list" where
  "spread a b = fold (\<lambda>(k, v) acc. AList.update k v acc) b a"

text \<open>
  The object literal \<^verbatim>\<open>requestOptions\<close>:
  \<^verbatim>\<open>{ method: options.method || 'GET',
     headers: { 'Authorization': `Bearer ${WORKFRONT_CONFIG.bearerToken}`, ...options.headers },
     ...options }\<close>.
  The trailing \<^verbatim>\<open>...options\<close> copies every property that \<^verbatim>\<open>options\<close> has over the ones
  written before it, \<^verbatim>\<open>method\<close> and \<^verbatim>\<open>headers\<close> included. The template literal is evaluated
  whatever \<^verbatim>\<open>options\<close> holds, and can throw.
\<close>

definition wf_requestOptions :: "string \<Rightarrow> json \<Rightarrow> options \<Rightarrow> exn + request" where
  "wf_requestOptions u token options =
     (let method0 = (case opt_method options of
                       None \<Rightarrow> ''GET''
                     | Some m \<Rightarrow> if m = [] then ''GET'' else m)
      in case js_String token of
           Inl error \<Rightarrow> Inl error
         | Inr shown \<Rightarrow>
             (let headers0 = spread [(''Authorization'', ''Bearer '' @ shown)]
                               (case opt_headers options of None \<Rightarrow> [] | Some h \<Rightarrow> h)
              in Inr \<lparr> url = u,
                       http_method = (case opt_method options of None \<Rightarrow> method0 | Some m \<Rightarrow> m),
                       headers = (case opt_headers options of None \<Rightarrow> headers0 | Some h \<Rightarrow> h),
                       req_body = opt_body options \<rparr>))"

text \<open>\<^verbatim>\<open>requestOptions.headers['Authorization'] = `Bearer ${WORKFRONT_CONFIG.bearerToken}`\<close>,
  before the retry: the template literal, which can throw, then the assignment.\<close>

definition set_header :: "string \<Rightarrow> string \<Rightarrow> request \<Rightarrow> request" where
  "set_header k v requestOptions =
     requestOptions\<lparr>headers := AList.update k v (headers requestOptions)\<rparr>"

definition set_authorization :: "json \<Rightarrow> request \<Rightarrow> exn + request" where
  "set_authorization token requestOptions =
     (case js_String token of
        Inl error \<Rightarrow> Inl error
      | Inr shown \<Rightarrow> Inr (set_header ''Authorization'' (''Bearer '' @ shown) requestOptions))"

text \<open>The \<^verbatim>\<open>try\<close> block of \<^verbatim>\<open>makeWorkfrontRequest\<close>, from the first \<^verbatim>\<open>fetch\<close> on.\<close>

definition wf_makeWorkfrontRequest_try ::
  "config \<Rightarrow> network \<Rightarrow> request \<Rightarrow> state \<Rightarrow> (exn + json) \<times> state" where
  "wf_makeWorkfrontRequest_try cfg net requestOptions st =
     (case fetch net requestOptions st of
        (Rejected m, st1) \<Rightarrow> (Inl (TypeError m), st1)
      | (Resolved response, st1) \<Rightarrow>
          if status response = 401 then
            (case wf_getBearerToken cfg net st1 of
               (Inl error, st2) \<Rightarrow> (Inl error, st2)
             | (Inr t, st2) \<Rightarrow>
                 (case set_authorization (bearerToken st2) requestOptions of
                    Inl error \<Rightarrow> (Inl error, st2)
                  | Inr retryOptions \<Rightarrow>
                      (case fetch net retryOptions st2 of
                         (Rejected m, st3) \<Rightarrow> (Inl (TypeError m), st3)
                       | (Resolved retryResponse, st3) \<Rightarrow>
                           if \<not> ok retryResponse then
                             (Inl (Error (''Workfront API error after token renewal: ''
                                           @ string_of_nat (status retryResponse)
                                           @ '' - '' @ body_text retryResponse)), st3)
                           else
                             (case parsed retryResponse of
                                Inl m \<Rightarrow> (Inl (SyntaxError m), st3)
                              | Inr j \<Rightarrow> (Inr j, st3)))))
          else if \<not> ok response then
            (Inl (Error (''Workfront API error: '' @ string_of_nat (status response)
                          @ '' - '' @ body_text response)), st1)
          else
            (case parsed response of
               Inl m \<Rightarrow> (Inl (SyntaxError m), st1)
             | Inr j \<Rightarrow> (Inr j, st1)))"

text \<open>\<^verbatim>\<open>makeWorkfrontRequest(endpoint, options)\<close> (\<^verbatim>\<open>authenticatedRequest\<close>). The call of
  \<^verbatim>\<open>ensureValidToken\<close> and the object literal stand before the \<^verbatim>\<open>try\<close> block, so their errors
  are not wrapped.\<close>

definition wf_makeWorkfrontRequest ::
  "config \<Rightarrow> network \<Rightarrow> string \<Rightarrow> options \<Rightarrow> state \<Rightarrow> (exn + json) \<times> state" where
  "wf_makeWorkfrontRequest cfg net endpoint options st =
     (case wf_ensureValidToken cfg net st of
        (Inl error, st1) \<Rightarrow> (Inl error, st1)
      | (Inr t, st1) \<Rightarrow>
          (case wf_requestOptions (baseUrl cfg @ endpoint) (bearerToken st1) options of
             Inl error \<Rightarrow> (Inl error, st1)
           | Inr requestOptions \<Rightarrow>
               try_catch (wf_makeWorkfrontRequest_try cfg net requestOptions st1)
                 (\<lambda>error s. (Inl (Error (''Workfront request error: '' @ message error)), s))))"

section \<open>The AEM adapter\<close>

subsection \<open>Library serialisers\<close>

text \<open>\<^verbatim>\<open>URLSearchParams.prototype.toString\<close>: the \<^verbatim>\<open>application/x-www-form-urlencoded\<close>
  serialisation of the name-value pairs.\<close>

definition hex_char :: "nat \<Rightarrow> char" where
  "hex_char d = ''0123456789ABCDEF'' ! d"

definition form_safe :: "char \<Rightarrow> bool" where
  "form_safe c =
     (let n = (of_char c :: nat)
      in (48 \<le> n \<and> n \<le> 57) \<or> (65 \<le> n \<and> n \<le> 90) \<or> (97 \<le> n \<and> n \<le> 122)
         \<or> c \<in> set ''*-._'')"

definition form_encode_char :: "char \<Rightarrow> string" where
  "form_encode_char c =
     (if c = CHR 0x20 then ''+''
      else if form_safe c then [c]
      else [CHR ''%'', hex_char ((of_char c :: nat) div 16), hex_char ((of_char c :: nat) mod 16)])"

definition form_encode :: "string \<Rightarrow> string" where
  "form_encode s = concat (map form_encode_char s)"

definition URLSearchParams_toString :: "(string \<times> string) list \<Rightarrow> string" where
  "URLSearchParams_toString ps =
     join ''&'' (map (\<lambda>(k, v). form_encode k @ ''='' @ form_encode v) ps)"

text \<open>\<^verbatim>\<open>JSON.stringify(v)\<close> of a parsed value. A finite number is printed as \<^verbatim>\<open>String(n)\<close>
  prints it; one that is not finite (the parser reads \<^verbatim>\<open>1e999\<close> as \<^verbatim>\<open>Infinity\<close>) is printed as
  \<^verbatim>\<open>null\<close>.\<close>

definition hex_lower :: "nat \<Rightarrow> char" where
  "hex_lower d = ''0123456789abcdef'' ! d"

definition json_escape_char :: "char \<Rightarrow> string" where
  "json_escape_char c =
     (if c = CHR 0x22 then [CHR 0x5C, CHR 0x22]
      else if c = CHR 0x5C then [CHR 0x5C, CHR 0x5C]
      else if c = CHR 0x08 then [CHR 0x5C, CHR ''b'']
      else if c = CHR 0x0C then [CHR 0x5C, CHR ''f'']
      else if c = CHR 0x0A then [CHR 0x5C, CHR ''n'']
      else if c = CHR 0x0D then [CHR 0x5C, CHR ''r'']
      else if c = CHR 0x09 then [CHR 0x5C, CHR ''t'']
      else if (of_char c :: nat) < 32 then
        [CHR 0x5C, CHR ''u'', CHR ''0'', CHR ''0'',
         hex_lower ((of_char c :: nat) div 16), hex_lower ((of_char c :: nat) mod 16)]
      else [c])"

definition json_quote :: "string \<Rightarrow> string" where
  "json_quote s = [CHR 0x22] @ concat (map json_escape_char s) @ [CHR 0x22]"

fun JSON_stringify :: "json \<Rightarrow> string" where
  "JSON_stringify JNull = ''null''"
| "JSON_stringify (JBool b) = (if b then ''true'' else ''false'')"
| "JSON_stringify (JNum nonzero shown) =
     (if shown \<in> {''Infinity'', ''-Infinity'', ''NaN''} then ''null'' else shown)"
| "JSON_stringify (JStr s) = json_quote s"
| "JSON_stringify (JArr xs) = ''['' @ join '','' (map JSON_stringify xs) @ '']''"
| "JSON_stringify (JObj fs) =
     ''{'' @ join '','' (map (\<lambda>kv. json_quote (fst kv) @ '':'' @ JSON_stringify (snd kv)) fs) @ ''}''"

subsection \<open>Configuration\<close>

definition aem_requiredEnvVars :: "string list" where
  "aem_requiredEnvVars = [''AEM_BASE_URL'', ''ADOBE_IMS_CLIENT_ID'', ''ADOBE_IMS_CLIENT_SECRET'']"

definition aem_missingEnvVars :: "env \<Rightarrow> string list" where
  "aem_missingEnvVars e = filter (\<lambda>varName. env_missing e varName) aem_requiredEnvVars"

definition AEM_CONFIG :: "env \<Rightarrow> config" where
  "AEM_CONFIG e =
     \<lparr> baseUrl = env_get e ''AEM_BASE_URL'',
       ims = \<lparr> tokenUrl = env_or e ''ADOBE_IMS_TOKEN_URL'' ''https://ims-na1.adobelogin.com/ims/token/v3'',
               clientId = env_get e ''ADOBE_IMS_CLIENT_ID'',
               clientSecret = env_get e ''ADOBE_IMS_CLIENT_SECRET'',
               scope = env_or e ''ADOBE_IMS_SCOPES''
                 ''openid,AdobeID,aem.assets.author,aem.folders,aem.fragments.management'' \<rparr> \<rparr>"

definition aem_load :: "env \<Rightarrow> config startup" where
  "aem_load e = (if length (aem_missingEnvVars e) > 0 then Exit 1 else Loaded (AEM_CONFIG e))"

subsection \<open>Requests\<close>

text \<open>What \<^verbatim>\<open>makeRequest\<close> returns: \<^verbatim>\<open>{ ok, status, data }\<close>. A text body is a JavaScript
  string, \<open>JStr\<close>.\<close>

record aem_response =
  r_ok :: bool
  r_status :: nat
  r_data :: json

text \<open>The second argument of the \<^verbatim>\<open>fetch\<close> in \<^verbatim>\<open>makeRequest\<close>:
  \<^verbatim>\<open>{ method: options.method || 'GET', headers: options.headers || {}, body: options.body || null }\<close>.\<close>

definition aem_fetch_request :: "string \<Rightarrow> options \<Rightarrow> request" where
  "aem_fetch_request u options =
     \<lparr> url = u,
       http_method = (case opt_method options of
                        None \<Rightarrow> ''GET''
                      | Some m \<Rightarrow> if m = [] then ''GET'' else m),
       headers = (case opt_headers options of None \<Rightarrow> [] | Some h \<Rightarrow> h),
       req_body = (case opt_body options of
                     None \<Rightarrow> None
                   | Some (BodyString b) \<Rightarrow> if b = [] then None else Some (BodyString b)
                   | Some b \<Rightarrow> Some b) \<rparr>"

text \<open>Whether \<^verbatim>\<open>makeRequest\<close> reads the body with \<^verbatim>\<open>response.json()\<close>:
  \<^verbatim>\<open>contentType && contentType.includes('application/json')\<close>.\<close>

definition declared_json :: "response \<Rightarrow> bool" where
  "declared_json response =
     (case content_type response of
        None \<Rightarrow> False
      | Some contentType \<Rightarrow> contentType \<noteq> [] \<and> js_includes contentType ''application/json'')"

definition aem_makeRequest ::
  "network \<Rightarrow> string \<Rightarrow> options \<Rightarrow> state \<Rightarrow> (exn + aem_response) \<times> state" where
  "aem_makeRequest net u options st =
     try_catch
       (case fetch net (aem_fetch_request u options) st of
          (Rejected m, st1) \<Rightarrow> (Inl (TypeError m), st1)
        | (Resolved response, st1) \<Rightarrow>
            if declared_json response then
              (case parsed response of
                 Inl m \<Rightarrow> (Inl (SyntaxError m), st1)
               | Inr j \<Rightarrow>
                   (Inr \<lparr>r_ok = ok response, r_status = status response, r_data = j\<rparr>, st1))
            else
              (Inr \<lparr>r_ok = ok response, r_status = status response,
                    r_data = JStr (body_text response)\<rparr>, st1))
       (\<lambda>error s. (Inl (Error (''Request failed: '' @ message error)), s))"

subsection \<open>Token manager\<close>

definition aem_token_options :: "config \<Rightarrow> options" where
  "aem_token_options cfg =
     \<lparr> opt_method = Some ''POST'',
       opt_headers = Some [(''Content-Type'', ''application/x-www-form-urlencoded'')],
       opt_body = Some (BodyString (URLSearchParams_toString
         [(''grant_type'', ''client_credentials''),
          (''client_id'', clientId (ims cfg)),
          (''client_secret'', clientSecret (ims cfg)),
          (''scope'', scope (ims cfg))])) \<rparr>"

definition aem_getBearerToken :: "config \<Rightarrow> network \<Rightarrow> state \<Rightarrow> (exn + json) \<times> state" where
  "aem_getBearerToken cfg net st =
     (case aem_makeRequest net (tokenUrl (ims cfg)) (aem_token_options cfg) st of
        (Inl error, st1) \<Rightarrow> (Inl error, st1)
      | (Inr response, st1) \<Rightarrow>
          if \<not> r_ok response then
            (Inl (Error (''Adobe IMS authentication error: '' @ string_of_nat (r_status response)
                          @ '' - '' @ JSON_stringify (r_data response))), st1)
          else
            (case get_prop ''access_token'' (Some (r_data response)) of
               Inl error \<Rightarrow> (Inl error, st1)
             | Inr None \<Rightarrow> (Inl (Error ''No access_token received from Adobe IMS''), st1)
             | Inr (Some access_token) \<Rightarrow>
                 if \<not> truthy access_token then
                   (Inl (Error ''No access_token received from Adobe IMS''), st1)
                 else
                   (case token_log (r_data response) of
                      Inl error \<Rightarrow> (Inl error, st1\<lparr>bearerToken := access_token\<rparr>)
                    | Inr line \<Rightarrow> (Inr access_token, st1\<lparr>bearerToken := access_token\<rparr>))))"

definition aem_ensureValidToken :: "config \<Rightarrow> network \<Rightarrow> state \<Rightarrow> (exn + json) \<times> state" where
  "aem_ensureValidToken cfg net st =
     (if \<not> truthy (bearerToken st) then
        (case aem_getBearerToken cfg net st of
           (Inl error, st1) \<Rightarrow> (Inl error, st1)
         | (Inr t, st1) \<Rightarrow> (Inr (bearerToken st1), st1))
      else (Inr (bearerToken st), st))"

subsection \<open>Authenticated requests\<close>

text \<open>The \<^verbatim>\<open>options\<close> argument of \<^verbatim>\<open>makeAEMRequest\<close>: \<^verbatim>\<open>method\<close>, \<^verbatim>\<open>headers\<close> and \<^verbatim>\<open>data\<close>.\<close>

record aem_options =
  aopt_method :: "string option"
  aopt_headers :: "(string \<times> string) list option"
  aopt_data :: "json option"

text \<open>The \<^verbatim>\<open>headers\<close> and \<^verbatim>\<open>requestOptions\<close> that \<^verbatim>\<open>makeAEMRequest\<close> builds; the template literal
  \<^verbatim>\<open>`Bearer ${AEM_CONFIG.bearerToken}`\<close> can throw.\<close>

definition aem_requestOptions :: "config \<Rightarrow> json \<Rightarrow> aem_options \<Rightarrow> exn + options" where
  "aem_requestOptions cfg token options =
     (case js_String token of
        Inl error \<Rightarrow> Inl error
      | Inr shown \<Rightarrow>
          Inr \<lparr> opt_method = Some (case aopt_method options of
                                   None \<Rightarrow> ''GET''
                                 | Some m \<Rightarrow> if m = [] then ''GET'' else m),
                opt_headers = Some (spread
                  [(''Authorization'', ''Bearer '' @ shown),
                   (''x-api-key'', clientId (ims cfg)),
                   (''Content-Type'', ''application/json'')]
                  (case aopt_headers options of None \<Rightarrow> [] | Some h \<Rightarrow> h)),
                opt_body = (case aopt_data options of
                              None \<Rightarrow> None
                            | Some d \<Rightarrow>
                                if truthy d then Some (BodyString (JSON_stringify d)) else None) \<rparr>)"

text \<open>\<^verbatim>\<open>makeAEMRequest(url, options)\<close>.\<close>

definition aem_makeAEMRequest ::
  "config \<Rightarrow> network \<Rightarrow> string \<Rightarrow> aem_options \<Rightarrow> state \<Rightarrow> (exn + json) \<times> state" where
  "aem_makeAEMRequest cfg net u options st =
     (case aem_ensureValidToken cfg net st of
        (Inl error, st1) \<Rightarrow> (Inl error, st1)
      | (Inr t, st1) \<Rightarrow>
          (case aem_requestOptions cfg (bearerToken st1) options of
             Inl error \<Rightarrow> (Inl error, st1)
           | Inr requestOptions \<Rightarrow>
               (case aem_makeRequest net u requestOptions st1 of
                  (Inl error, st2) \<Rightarrow> (Inl error, st2)
                | (Inr response, st2) \<Rightarrow>
                    if \<not> r_ok response then
                      (Inl (Error (''AEM API error: '' @ string_of_nat (r_status response)
                                    @ '' - '' @ JSON_stringify (r_data response))), st2)
                    else (Inr (r_data response), st2))))"

section \<open>Tool invocations\<close>

text \<open>
  What a tool returns to the host: \<^verbatim>\<open>{ content: [{ type, text }], isError }\<close>; \<^verbatim>\<open>isError\<close> is
  absent (\<open>None\<close>) from a normal result.
\<close>

record content_item =
  item_type :: string
  item_text :: string

record tool_result =
  content :: "content_item list"
  isError :: "bool option"

text \<open>A tool method: from the \<^verbatim>\<open>arguments\<close> of the call (\<^verbatim>\<open>undefined\<close> when the host sent none)
  and the state to its result, or what it threw, and the state it left.\<close>

type_synonym tool = "jsval \<Rightarrow> state \<Rightarrow> (exn + tool_result) \<times> state"

text \<open>The \<^verbatim>\<open>catch\<close> block of both \<^verbatim>\<open>CallToolRequestSchema\<close> handlers.\<close>

definition error_result :: "exn \<Rightarrow> tool_result" where
  "error_result error =
     \<lparr> content = [\<lparr>item_type = ''text'', item_text = ''Error: '' @ message error\<rparr>],
       isError = Some True \<rparr>"

subsection \<open>Workfront\<close>

text \<open>The template literal of the text \<^verbatim>\<open>createTaskPredecessor\<close> returns, its substitutions
  evaluated and converted from left to right.\<close>

definition predecessor_text :: "jsval \<Rightarrow> jsval \<Rightarrow> json \<Rightarrow> exn + string" where
  "predecessor_text taskID predecessorExpression responseData =
     (case js_String_val taskID of
        Inl error \<Rightarrow> Inl error
      | Inr task \<Rightarrow>
          (case js_String_val predecessorExpression of
             Inl error \<Rightarrow> Inl error
           | Inr expression \<Rightarrow>
               (case get_prop ''data'' (Some responseData) of
                  Inl error \<Rightarrow> Inl error
                | Inr d \<Rightarrow>
                    (case get_prop ''name'' d of
                       Inl error \<Rightarrow> Inl error
                     | Inr nm \<Rightarrow>
                         (case (if js_not nm then Inr ''Task updated'' else js_String_val nm) of
                            Inl error \<Rightarrow> Inl error
                          | Inr updated \<Rightarrow>
                              Inr (''Task predecessor relationship created successfully!''
                                   @ [CHR 0x0A, CHR 0x0A] @ ''Task ID: '' @ task
                                   @ [CHR 0x0A] @ ''Predecessor Expression: '' @ expression
                                   @ [CHR 0x0A] @ ''Updated: '' @ updated))))))"

text \<open>The \<^verbatim>\<open>try\<close> block of \<^verbatim>\<open>createTaskPredecessor\<close>.\<close>

definition wf_createTaskPredecessor_try ::
  "config \<Rightarrow> network \<Rightarrow> jsval \<Rightarrow> jsval \<Rightarrow> (string \<times> string) list \<Rightarrow> state
     \<Rightarrow> (exn + tool_result) \<times> state" where
  "wf_createTaskPredecessor_try cfg net taskID predecessorExpression formData st =
     (case js_String_val taskID of
        Inl error \<Rightarrow> (Inl error, st)
      | Inr task \<Rightarrow>
          (case wf_makeWorkfrontRequest cfg net (''/task/'' @ task)
                  \<lparr> opt_method = Some ''PUT'',
                    opt_headers = Some [(''Content-Type'', ''application/x-www-form-urlencoded'')],
                    opt_body = Some (URLSearchParams formData) \<rparr> st of
             (Inl error, st1) \<Rightarrow> (Inl error, st1)
           | (Inr responseData, st1) \<Rightarrow>
               (case predecessor_text taskID predecessorExpression responseData of
                  Inl error \<Rightarrow> (Inl error, st1)
                | Inr shown \<Rightarrow>
                    (Inr \<lparr> content = [\<lparr>item_type = ''text'', item_text = shown\<rparr>],
                          isError = None \<rparr>, st1))))"

text \<open>\<^verbatim>\<open>createTaskPredecessor(args = {})\<close>. \<^verbatim>\<open>formData.append\<close> converts its value to a string,
  before the \<^verbatim>\<open>try\<close> block.\<close>

definition wf_createTaskPredecessor :: "config \<Rightarrow> network \<Rightarrow> tool" where
  "wf_createTaskPredecessor cfg net args0 st =
     (let args = (case args0 of None \<Rightarrow> Some (JObj []) | Some a \<Rightarrow> Some a) in
      case get_prop ''taskID'' args of
        Inl error \<Rightarrow> (Inl error, st)
      | Inr taskID \<Rightarrow>
          if js_not taskID then
            (Inl (Error ''taskID is required to create task predecessors''), st)
          else
            (case get_prop ''predecessorExpression'' args of
               Inl error \<Rightarrow> (Inl error, st)
             | Inr predecessorExpression \<Rightarrow>
                 if js_not predecessorExpression then
                   (Inl (Error ''predecessorExpression is required to create task predecessors''), st)
                 else
                   (case js_String_val predecessorExpression of
                      Inl error \<Rightarrow> (Inl error, st)
                    | Inr v \<Rightarrow>
                        try_catch
                          (wf_createTaskPredecessor_try cfg net taskID predecessorExpression
                             [(''predecessorExpression'', v)] st)
                          (\<lambda>error s.
                             (Inl (Error (''Task predecessor creation error: '' @ message error)), s)))))"

text \<open>
  The methods the handler dispatches to. The handler is modelled for every choice of their
  bodies; \<open>wf_createTaskPredecessor\<close> above is the body of one of them.
\<close>

record wf_tools =
  getProjectNames :: tool
  getPortfolioNames :: tool
  getTaskNames :: tool
  getTemplateNames :: tool
  getUsers :: tool
  createProject :: tool
  createTask :: tool
  createTaskPredecessor :: tool

text \<open>The \<^verbatim>\<open>try\<close> block of the \<^verbatim>\<open>CallToolRequestSchema\<close> handler.\<close>

definition wf_dispatch :: "wf_tools \<Rightarrow> string \<Rightarrow> tool" where
  "wf_dispatch T name args st =
     (if name = ''get_project_names'' then getProjectNames T args st
      else if name = ''get_portfolio_names'' then getPortfolioNames T args st
      else if name = ''get_task_names'' then getTaskNames T args st
      else if name = ''get_template_names'' then getTemplateNames T args st
      else if name = ''get_users'' then getUsers T args st
      else if name = ''create_project'' then createProject T args st
      else if name = ''create_task'' then createTask T args st
      else if name = ''create_task_predecessor'' then createTaskPredecessor T args st
      else (Inl (Error (''Unknown tool: '' @ name)), st))"

definition wf_callTool :: "wf_tools \<Rightarrow> string \<Rightarrow> tool" where
  "wf_callTool T name args st =
     try_catch (wf_dispatch T name args st) (\<lambda>error s. (Inr (error_result error), s))"

subsection \<open>AEM\<close>

record aem_tools =
  listContentFragments :: tool
  listContentFragmentModels :: tool
  listFolders :: tool
  createFolders :: tool
  importAssetsFromUrl :: tool
  createContentFragment :: tool

definition aem_dispatch :: "aem_tools \<Rightarrow> string \<Rightarrow> tool" where
  "aem_dispatch T name args st =
     (if name = ''list_content_fragments'' then listContentFragments T args st
      else if name = ''list_content_fragment_models'' then listContentFragmentModels T args st
      else if name = ''list_folders'' then listFolders T args st
      else if name = ''create_folders'' then createFolders T args st
      else if name = ''import_assets_from_url'' then importAssetsFromUrl T args st
      else if name = ''create_content_fragment'' then createContentFragment T args st
      else (Inl (Error (''Unknown tool: '' @ name)), st))"

definition aem_callTool :: "aem_tools \<Rightarrow> string \<Rightarrow> tool" where
  "aem_callTool T name args st =
     try_catch (aem_dispatch T name args st) (\<lambda>error s. (Inr (error_result error), s))"

subsection \<open>The process\<close>

text \<open>
  One run of an adapter process: the startup check, then the tool calls the host sends,
  served in order from the initial state. \<open>exit_code\<close> is \<open>Some c\<close> when the process ended by
  \<^verbatim>\<open>process.exit(c)\<close>.
\<close>

fun serve :: "(string \<Rightarrow> tool) \<Rightarrow> (string \<times> jsval) list \<Rightarrow> state
    \<Rightarrow> (exn + tool_result) list \<times> state" where
  "serve h [] st = ([], st)"
| "serve h ((name, args) # calls) st =
     (case h name args st of
        (r, st1) \<Rightarrow> (case serve h calls st1 of (rs, st2) \<Rightarrow> (r # rs, st2)))"

record run =
  exit_code :: "nat option"
  responses :: "(exn + tool_result) list"
  final :: state

definition wf_main :: "env \<Rightarrow> (config \<Rightarrow> network \<Rightarrow> wf_tools) \<Rightarrow> network
    \<Rightarrow> (string \<times> jsval) list \<Rightarrow> run" where
  "wf_main e T net calls =
     (case wf_load e of
        Exit c \<Rightarrow> \<lparr>exit_code = Some c, responses = [], final = initial_state\<rparr>
      | Loaded cfg \<Rightarrow>
          (case serve (wf_callTool (T cfg net)) calls initial_state of
             (rs, st) \<Rightarrow> \<lparr>exit_code = None, responses = rs, final = st\<rparr>))"

definition aem_main :: "env \<Rightarrow> (config \<Rightarrow> network \<Rightarrow> aem_tools) \<Rightarrow> network
    \<Rightarrow> (string \<times> jsval) list \<Rightarrow> run" where
  "aem_main e T net calls =
     (case aem_load e of
        Exit c \<Rightarrow> \<lparr>exit_code = Some c, responses = [], final = initial_state\<rparr>
      | Loaded cfg \<Rightarrow>
          (case serve (aem_callTool (T cfg net)) calls initial_state of
             (rs, st) \<Rightarrow> \<lparr>exit_code = None, responses = rs, final = st\<rparr>))"

section \<open>Sample inputs\<close>

text \<open>Concrete configurations, responses and networks, on which the theorems below are
  instantiated. \<open>script rs\<close> answers the \<open>k\<close>-th \<^verbatim>\<open>fetch\<close> with \<open>rs ! k\<close> and lets every later
  one fail.\<close>

definition sample_config :: config where
  "sample_config =
     \<lparr> baseUrl = ''https://example.my.workfront.com/attask/api/v15.0'',
       ims = \<lparr> tokenUrl = ''https://ims-na1.adobelogin.com/ims/token/v3'',
               clientId = ''client-id'',
               clientSecret = ''client-secret'',
               scope = ''openid,AdobeID'' \<rparr> \<rparr>"

definition sample_env :: env where
  "sample_env =
     map_of [(''WORKFRONT_BASE_URL'', ''https://example.my.workfront.com/attask/api/v15.0''),
             (''AEM_BASE_URL'', ''https://author.example.adobeaemcloud.com''),
             (''ADOBE_IMS_CLIENT_ID'', ''client-id''),
             (''ADOBE_IMS_CLIENT_SECRET'', ''client-secret'')]"

definition json_response :: "nat \<Rightarrow> json \<Rightarrow> response" where
  "json_response s j =
     \<lparr> status = s, content_type = Some ''application/json'',
       body_text = JSON_stringify j, parsed = Inr j \<rparr>"

definition text_response :: "nat \<Rightarrow> string \<Rightarrow> response" where
  "text_response s t =
     \<lparr> status = s, content_type = Some ''text/plain'',
       body_text = t, parsed = Inl ''Unexpected token in JSON at position 0'' \<rparr>"

text \<open>A response that declares JSON and has an empty body.\<close>

definition empty_json_response :: "nat \<Rightarrow> response" where
  "empty_json_response s =
     \<lparr> status = s, content_type = Some ''application/json'',
       body_text = [], parsed = Inl ''Unexpected end of JSON input'' \<rparr>"

definition token_response :: "string \<Rightarrow> response" where
  "token_response t =
     json_response 200 (JObj [(''access_token'', JStr t), (''expires_in'', JNum True ''3600'')])"

definition script :: "fetch_result list \<Rightarrow> network" where
  "script rs k = (if k < length rs then rs ! k else Rejected ''fetch failed'')"

definition cached :: "string \<Rightarrow> state" where
  "cached t = \<lparr>bearerToken = JStr t, sent = []\<rparr>"

definition no_aem_options :: aem_options where
  "no_aem_options = \<lparr>aopt_method = None, aopt_headers = None, aopt_data = None\<rparr>"

text \<open>The options \<^verbatim>\<open>createTask\<close>, \<^verbatim>\<open>createProject\<close> and \<^verbatim>\<open>createTaskPredecessor\<close> pass: a method,
  a \<^verbatim>\<open>headers\<close> object with the content type, and a form body.\<close>

definition form_options :: "string \<Rightarrow> (string \<times> string) list \<Rightarrow> options" where
  "form_options m formData =
     \<lparr> opt_method = Some m,
       opt_headers = Some [(''Content-Type'', ''application/x-www-form-urlencoded'')],
       opt_body = Some (URLSearchParams formData) \<rparr>"

text \<open>A tool that throws: it stands in the sample tables for the methods whose bodies are
  not part of this development.\<close>

definition throwing_tool :: "string \<Rightarrow> tool" where
  "throwing_tool m args st = (Inl (Error m), st)"

definition sample_wf_tools :: "config \<Rightarrow> network \<Rightarrow> wf_tools" where
  "sample_wf_tools cfg net =
     \<lparr> getProjectNames = throwing_tool ''getProjectNames'',
       getPortfolioNames = throwing_tool ''getPortfolioNames'',
       getTaskNames = throwing_tool ''getTaskNames'',
       getTemplateNames = throwing_tool ''getTemplateNames'',
       getUsers = throwing_tool ''getUsers'',
       createProject = throwing_tool ''createProject'',
       createTask = throwing_tool ''createTask'',
       createTaskPredecessor = wf_createTaskPredecessor cfg net \<rparr>"

definition sample_aem_tools :: "config \<Rightarrow> network \<Rightarrow> aem_tools" where
  "sample_aem_tools cfg net =
     \<lparr> listContentFragments = throwing_tool ''listContentFragments'',
       listContentFragmentModels = throwing_tool ''listContentFragmentModels'',
       listFolders = throwing_tool ''listFolders'',
       createFolders = throwing_tool ''createFolders'',
       importAssetsFromUrl = throwing_tool ''importAssetsFromUrl'',
       createContentFragment = throwing_tool ''createContentFragment'' \<rparr>"

definition predecessor_args :: json where
  "predecessor_args = JObj [(''taskID'', JStr ''5f1a''), (''predecessorExpression'', JStr ''2fs+3d'')]"

definition projects_endpoint :: string where
  "projects_endpoint = ''/proj/search?fields=ID,name''"

definition folders_url :: string where
  "folders_url = ''https://author.example.adobeaemcloud.com/adobe/folders?path=%2Fcontent%2Fdam''"

definition retry_script :: network where
  "retry_script =
     script [Resolved (text_response 401 ''token expired''),
             Resolved (token_response ''NEW''),
             Resolved (text_response 401 ''still unauthorized'')]"

definition renewal_fails_script :: network where
  "renewal_fails_script =
     script [Resolved (text_response 401 ''token expired''),
             Resolved (text_response 500 ''ims down''),
             Resolved (json_response 200 (JObj [(''data'', JArr [])]))]"

definition renewal_works_script :: network where
  "renewal_works_script =
     script [Resolved (text_response 401 ''token expired''),
             Resolved (token_response ''NEW''),
             Resolved (json_response 200 (JObj [(''data'', JArr [])]))]"

definition forbidden_script :: network where
  "forbidden_script = script [Resolved (text_response 403 ''forbidden'')]"

definition retry_not_found_script :: network where
  "retry_not_found_script =
     script [Resolved (text_response 401 ''token expired''),
             Resolved (token_response ''NEW''),
             Resolved (text_response 404 ''no such project'')]"

definition error_body :: json where
  "error_body = JObj [(''title'', JStr ''Forbidden'')]"

definition no_token_body :: json where
  "no_token_body = JObj [(''error'', JStr ''invalid_scope'')]"

text \<open>An object that has a \<^verbatim>\<open>toString\<close> property of its own, \<^verbatim>\<open>{"toString": 1}\<close>: a template literal
  throws on it.\<close>

definition unprintable :: json where
  "unprintable = JObj [(''toString'', JNum True ''1'')]"

text \<open>A 200 answer whose body is the JSON text of a token and that declares no content type.\<close>

definition undeclared_token_response :: "string \<Rightarrow> response" where
  "undeclared_token_response t =
     \<lparr> status = 200, content_type = None,
       body_text = JSON_stringify (JObj [(''access_token'', JStr t), (''expires_in'', JNum True ''3600'')]),
       parsed = Inr (JObj [(''access_token'', JStr t), (''expires_in'', JNum True ''3600'')]) \<rparr>"

text \<open>A 200 answer with a token and an \<^verbatim>\<open>expires_in\<close> that the log line cannot print.\<close>

definition unloggable_token_response :: "string \<Rightarrow> response" where
  "unloggable_token_response t =
     json_response 200 (JObj [(''access_token'', JStr t), (''expires_in'', unprintable)])"

text \<open>A 200 answer whose \<^verbatim>\<open>access_token\<close> is an object that a template literal cannot print.\<close>

definition unprintable_token_response :: response where
  "unprintable_token_response =
     json_response 200 (JObj [(''access_token'', unprintable), (''expires_in'', JNum True ''3600'')])"

text \<open>The request \<^verbatim>\<open>makeWorkfrontRequest(projects_endpoint)\<close> sends with the \<^verbatim>\<open>Authorization\<close> header
  \<open>a\<close>, and the one \<^verbatim>\<open>makeAEMRequest(folders_url)\<close> sends.\<close>

definition projects_request :: "string \<Rightarrow> request" where
  "projects_request a =
     \<lparr> url = ''https://example.my.workfront.com/attask/api/v15.0/proj/search?fields=ID,name'',
       http_method = ''GET'',
       headers = [(''Authorization'', a)],
       req_body = None \<rparr>"

definition folders_request :: "string \<Rightarrow> request" where
  "folders_request a =
     \<lparr> url = folders_url,
       http_method = ''GET'',
       headers = [(''Authorization'', a), (''x-api-key'', ''client-id''),
                  (''Content-Type'', ''application/json'')],
       req_body = None \<rparr>"

definition renewal_unprintable_script :: network where
  "renewal_unprintable_script =
     script [Resolved (text_response 401 ''token expired''),
             Resolved unprintable_token_response,
             Resolved (json_response 200 (JObj [(''data'', JArr [])]))]"

section \<open>Evaluation of the sample inputs\<close>

lemma string_of_nat_401: "string_of_nat 401 = ''401''"
  by (simp add: string_of_nat.simps digit_char_def)

lemma string_of_nat_500: "string_of_nat 500 = ''500''"
  by (simp add: string_of_nat.simps digit_char_def)

lemma string_of_nat_404: "string_of_nat 404 = ''404''"
  by (simp add: string_of_nat.simps digit_char_def)

lemma string_of_nat_403: "string_of_nat 403 = ''403''"
  by (simp add: string_of_nat.simps digit_char_def)

lemma script_simps [simp]:
  "script (r # rs) 0 = r" "script (r # rs) (Suc k) = script rs k" "script [] k = Rejected ''fetch failed''"
  by (simp_all add: script_def)

lemma cached_simps [simp]: "sent (cached t) = []" "bearerToken (cached t) = JStr t"
  "(cached t)\<lparr>sent := x\<rparr> = \<lparr>bearerToken = JStr t, sent = x\<rparr>"
  by (simp_all add: cached_def)

lemma text_response_simps [simp]:
  "status (text_response s t) = s" "body_text (text_response s t) = t"
  "ok (text_response s t) = (200 \<le> s \<and> s \<le> 299)"
  "\<not> declared_json (text_response s t)"
  by (simp_all add: text_response_def ok_def declared_json_def)

lemma json_response_simps [simp]:
  "status (json_response s j) = s" "body_text (json_response s j) = JSON_stringify j"
  "ok (json_response s j) = (200 \<le> s \<and> s \<le> 299)"
  "declared_json (json_response s j)" "parsed (json_response s j) = Inr j"
  by (simp_all add: json_response_def ok_def declared_json_def)

lemma empty_json_response_simps [simp]:
  "status (empty_json_response s) = s" "body_text (empty_json_response s) = []"
  "ok (empty_json_response s) = (200 \<le> s \<and> s \<le> 299)"
  "declared_json (empty_json_response s)"
  "parsed (empty_json_response s) = Inl ''Unexpected end of JSON input''"
  by (simp_all add: empty_json_response_def ok_def declared_json_def)

lemma token_response_simps [simp]:
  "ok (token_response t)" "declared_json (token_response t)"
  "parsed (token_response t) = Inr (JObj [(''access_token'', JStr t), (''expires_in'', JNum True ''3600'')])"
  by (simp_all add: token_response_def json_response_def ok_def declared_json_def)

lemma wf_ensure_cached [simp]:
  "wf_ensureValidToken cfg net (cached (c # cs)) = (Inr (JStr (c # cs)), cached (c # cs))"
  by (simp add: wf_ensureValidToken_def cached_def)

lemma aem_ensure_cached [simp]:
  "aem_ensureValidToken cfg net (cached (c # cs)) = (Inr (JStr (c # cs)), cached (c # cs))"
  by (simp add: aem_ensureValidToken_def cached_def)

lemma token_log_simps [simp]:
  "token_log (JObj [(''access_token'', t), (''expires_in'', JNum True ''3600'')]) =
     Inr ''Token retrieved successfully. Expires in 3600 seconds''"
  "token_log (JObj [(''access_token'', t), (''expires_in'', unprintable)]) = Inl cannot_convert"
  by (simp_all add: token_log_def js_String_val_def unprintable_def)

lemma js_String_unprintable [simp]: "js_String unprintable = Inl cannot_convert"
  by (simp add: unprintable_def)

section \<open>The token manager: acquiring and caching\<close>

text \<open>What \<^verbatim>\<open>getBearerToken\<close> does to the state: it calls \<^verbatim>\<open>fetch\<close> exactly once, with the token
  request, and a token it returns is the one it has stored.\<close>

lemma wf_getBearerToken_sent:
  "sent (snd (wf_getBearerToken cfg net st)) = sent st @ [wf_token_request cfg]"
  by (auto simp: wf_getBearerToken_def wf_getBearerToken_try_def try_catch_def fetch_def
      split: fetch_result.splits if_splits sum.splits option.splits)

lemma wf_getBearerToken_Inr:
  "wf_getBearerToken cfg net st = (Inr t, st') \<Longrightarrow>
     st' = st\<lparr>sent := sent st @ [wf_token_request cfg], bearerToken := t\<rparr> \<and> truthy t"
  by (auto simp: wf_getBearerToken_def wf_getBearerToken_try_def try_catch_def fetch_def
      split: fetch_result.splits if_splits sum.splits option.splits)

lemma wf_getBearerToken_ok:
  assumes "net (length (sent st)) = Resolved r" and "ok r"
    and "parsed r = Inr (JObj fs)" and "map_of fs ''access_token'' = Some tok" and "truthy tok"
    and "token_log (JObj fs) = Inr line"
  shows "wf_getBearerToken cfg net st =
           (Inr tok, st\<lparr>sent := sent st @ [wf_token_request cfg], bearerToken := tok\<rparr>)"
  using assms
  by (simp add: wf_getBearerToken_def wf_getBearerToken_try_def try_catch_def fetch_def)

lemma aem_makeRequest_state:
  "snd (aem_makeRequest net u options st) = st\<lparr>sent := sent st @ [aem_fetch_request u options]\<rparr>"
  by (auto simp: aem_makeRequest_def try_catch_def fetch_def
      split: fetch_result.splits if_splits sum.splits option.splits)

lemma aem_makeRequest_text:
  assumes "net (length (sent st)) = Resolved r" and "\<not> declared_json r"
  shows "aem_makeRequest net u options st =
     (Inr \<lparr>r_ok = ok r, r_status = status r, r_data = JStr (body_text r)\<rparr>,
      st\<lparr>sent := sent st @ [aem_fetch_request u options]\<rparr>)"
  using assms by (simp add: aem_makeRequest_def try_catch_def fetch_def)

lemma aem_makeRequest_json:
  assumes "net (length (sent st)) = Resolved r" and "declared_json r" and "parsed r = Inr j"
  shows "aem_makeRequest net u options st =
     (Inr \<lparr>r_ok = ok r, r_status = status r, r_data = j\<rparr>,
      st\<lparr>sent := sent st @ [aem_fetch_request u options]\<rparr>)"
  using assms by (simp add: aem_makeRequest_def try_catch_def fetch_def)

lemma aem_makeRequest_unparsable:
  assumes "net (length (sent st)) = Resolved r" and "declared_json r" and "parsed r = Inl m"
  shows "aem_makeRequest net u options st =
     (Inl (Error (''Request failed: '' @ m)), st\<lparr>sent := sent st @ [aem_fetch_request u options]\<rparr>)"
  using assms by (simp add: aem_makeRequest_def try_catch_def fetch_def)

lemma aem_getBearerToken_sent:
  "sent (snd (aem_getBearerToken cfg net st)) =
     sent st @ [aem_fetch_request (tokenUrl (ims cfg)) (aem_token_options cfg)]"
  using aem_makeRequest_state [of net "tokenUrl (ims cfg)" "aem_token_options cfg" st]
  by (auto simp: aem_getBearerToken_def split: if_splits sum.splits option.splits prod.splits)

lemma aem_getBearerToken_Inr:
  "aem_getBearerToken cfg net st = (Inr t, st') \<Longrightarrow>
     st' = st\<lparr>sent := sent st @ [aem_fetch_request (tokenUrl (ims cfg)) (aem_token_options cfg)],
              bearerToken := t\<rparr> \<and> truthy t"
  using aem_makeRequest_state [of net "tokenUrl (ims cfg)" "aem_token_options cfg" st]
  by (auto simp: aem_getBearerToken_def split: if_splits sum.splits option.splits prod.splits)

text \<open>
  Claim C3, as stated, fails. The AEM adapter reads a body with \<^verbatim>\<open>response.json()\<close> only when
  the response declares \<^verbatim>\<open>application/json\<close>: a 200 answer whose body is the JSON text of a
  token and that declares no content type is read as text, and \<^verbatim>\<open>getBearerToken\<close> throws the
  no-token error with nothing stored. And where \<^verbatim>\<open>expires_in\<close> is an object with a \<^verbatim>\<open>toString\<close>
  property of its own, the log line after the store throws: the token is stored and the call
  fails.
\<close>

theorem token_body_read_as_text_or_unloggable:
  "aem_getBearerToken sample_config (script [Resolved (undeclared_token_response ''T'')]) initial_state =
     (Inl (Error ''No access_token received from Adobe IMS''),
      \<lparr>bearerToken = JNull,
       sent = [aem_fetch_request (tokenUrl (ims sample_config)) (aem_token_options sample_config)]\<rparr>)
   \<and> wf_getBearerToken sample_config (script [Resolved (unloggable_token_response ''T'')]) initial_state =
     (Inl (Error ''Token retrieval error: Cannot convert object to primitive value''),
      \<lparr>bearerToken = JStr ''T'', sent = [wf_token_request sample_config]\<rparr>)"
  by (simp add: aem_getBearerToken_def aem_makeRequest_def fetch_def try_catch_def initial_state_def
      wf_getBearerToken_def wf_getBearerToken_try_def undeclared_token_response_def
      unloggable_token_response_def declared_json_def ok_def cannot_convert_def)

text \<open>
  Claim C3, amended. When the token endpoint answers \<^verbatim>\<open>getBearerToken\<close>'s request with a 2xx
  status and a JSON body that is an object with a truthy (non-empty) \<^verbatim>\<open>access_token\<close> and an
  \<^verbatim>\<open>expires_in\<close> that the log line can print, the token is stored in the cached-token state and
  returned, after that one request: in the Workfront adapter always, in the AEM adapter when
  the response declares the content type \<^verbatim>\<open>application/json\<close>.
\<close>

theorem getBearerToken_success:
  assumes "net (length (sent st)) = Resolved r" and "ok r"
    and "parsed r = Inr (JObj fs)" and "map_of fs ''access_token'' = Some tok" and "truthy tok"
    and "token_log (JObj fs) = Inr line"
  shows "wf_getBearerToken cfg net st =
           (Inr tok, st\<lparr>sent := sent st @ [wf_token_request cfg], bearerToken := tok\<rparr>)
       \<and> (declared_json r \<longrightarrow>
            aem_getBearerToken cfg net st =
              (Inr tok, st\<lparr>sent := sent st @ [aem_fetch_request (tokenUrl (ims cfg)) (aem_token_options cfg)],
                           bearerToken := tok\<rparr>))"
  using assms
  by (simp add: wf_getBearerToken_def wf_getBearerToken_try_def aem_getBearerToken_def
      aem_makeRequest_def try_catch_def fetch_def)

theorem getBearerToken_success_witness:
  "wf_getBearerToken sample_config (script [Resolved (token_response ''T'')]) initial_state =
     (Inr (JStr ''T''), \<lparr>bearerToken = JStr ''T'', sent = [wf_token_request sample_config]\<rparr>)
   \<and> aem_getBearerToken sample_config (script [Resolved (token_response ''T'')]) initial_state =
     (Inr (JStr ''T''),
      \<lparr>bearerToken = JStr ''T'',
       sent = [aem_fetch_request (tokenUrl (ims sample_config)) (aem_token_options sample_config)]\<rparr>)"
  using getBearerToken_success [of "script [Resolved (token_response ''T'')]" initial_state
      "token_response ''T''" "[(''access_token'', JStr ''T''), (''expires_in'', JNum True ''3600'')]"
      "JStr ''T''" "''Token retrieved successfully. Expires in 3600 seconds''" sample_config]
  by (simp add: initial_state_def)

text \<open>
  Claim C4, as stated, fails: a non-2xx answer of the token endpoint does not always fail
  with an error that carries the status. In the AEM adapter \<^verbatim>\<open>makeRequest\<close> reads the body
  before \<^verbatim>\<open>getBearerToken\<close> looks at the status, inside a \<^verbatim>\<open>try\<close> whose \<^verbatim>\<open>catch\<close> rethrows
  \<^verbatim>\<open>Request failed: ...\<close>; a 500 that declares JSON and has an empty body fails with the
  parser's message alone. And a 2xx body that is the JSON value \<^verbatim>\<open>null\<close> fails with the
  runtime's TypeError for reading a property of \<^verbatim>\<open>null\<close>, not with the no-token error.
\<close>

theorem aem_unparsable_token_error_hides_status:
  "aem_getBearerToken sample_config (script [Resolved (empty_json_response 500)]) initial_state =
     (Inl (Error ''Request failed: Unexpected end of JSON input''),
      \<lparr>bearerToken = JNull,
       sent = [aem_fetch_request (tokenUrl (ims sample_config)) (aem_token_options sample_config)]\<rparr>)
   \<and> wf_getBearerToken sample_config (script [Resolved (json_response 200 JNull)]) initial_state =
     (Inl (Error (''Token retrieval error: '' @ message (cannot_read ''null'' ''access_token''))),
      \<lparr>bearerToken = JNull, sent = [wf_token_request sample_config]\<rparr>)"
  by (simp add: aem_getBearerToken_def aem_makeRequest_def fetch_def try_catch_def initial_state_def
      wf_getBearerToken_def wf_getBearerToken_try_def)

text \<open>
  Claim C4, amended. A non-2xx answer fails \<^verbatim>\<open>getBearerToken\<close> with an authentication error
  that carries the status and the body: in the Workfront adapter always, with the raw body
  text; in the AEM adapter when the body is read without error (it is not declared JSON, or it
  parses), with \<^verbatim>\<open>JSON.stringify\<close> of what was read. A 2xx answer whose JSON body is not
  \<^verbatim>\<open>null\<close> and has no truthy \<^verbatim>\<open>access_token\<close> fails with the no-token error, whose message is
  different from every authentication error's. In each case exactly one request, the token
  request, has been sent: nothing is retried.
\<close>

theorem getBearerToken_failures:
  "(net (length (sent st)) = Resolved r \<and> \<not> ok r
    \<longrightarrow> wf_getBearerToken cfg net st =
          (Inl (Error (''Token retrieval error: Adobe IMS authentication error: ''
                        @ string_of_nat (status r) @ '' - '' @ body_text r)),
           st\<lparr>sent := sent st @ [wf_token_request cfg]\<rparr>))
   \<and> (net (length (sent st)) = Resolved r \<and> ok r \<and> parsed r = Inr data
      \<and> get_prop ''access_token'' (Some data) = Inr v \<and> js_not v
    \<longrightarrow> wf_getBearerToken cfg net st =
          (Inl (Error ''Token retrieval error: No access_token received from Adobe IMS''),
           st\<lparr>sent := sent st @ [wf_token_request cfg]\<rparr>))
   \<and> ''Token retrieval error: Adobe IMS authentication error: '' @ x
        \<noteq> ''Token retrieval error: No access_token received from Adobe IMS''
   \<and> (net (length (sent st)) = Resolved r \<and> \<not> ok r \<and> \<not> declared_json r
    \<longrightarrow> aem_getBearerToken cfg net st =
          (Inl (Error (''Adobe IMS authentication error: '' @ string_of_nat (status r) @ '' - ''
                        @ JSON_stringify (JStr (body_text r)))),
           st\<lparr>sent := sent st @ [aem_fetch_request (tokenUrl (ims cfg)) (aem_token_options cfg)]\<rparr>))
   \<and> (net (length (sent st)) = Resolved r \<and> \<not> ok r \<and> declared_json r \<and> parsed r = Inr data
    \<longrightarrow> aem_getBearerToken cfg net st =
          (Inl (Error (''Adobe IMS authentication error: '' @ string_of_nat (status r) @ '' - ''
                        @ JSON_stringify data)),
           st\<lparr>sent := sent st @ [aem_fetch_request (tokenUrl (ims cfg)) (aem_token_options cfg)]\<rparr>))
   \<and> (net (length (sent st)) = Resolved r \<and> ok r \<and> declared_json r \<and> parsed r = Inr data
      \<and> get_prop ''access_token'' (Some data) = Inr v \<and> js_not v
    \<longrightarrow> aem_getBearerToken cfg net st =
          (Inl (Error ''No access_token received from Adobe IMS''),
           st\<lparr>sent := sent st @ [aem_fetch_request (tokenUrl (ims cfg)) (aem_token_options cfg)]\<rparr>))
   \<and> ''Adobe IMS authentication error: '' @ x \<noteq> ''No access_token received from Adobe IMS''"
proof (intro conjI impI)
  assume "net (length (sent st)) = Resolved r \<and> \<not> ok r"
  then show "wf_getBearerToken cfg net st =
          (Inl (Error (''Token retrieval error: Adobe IMS authentication error: ''
                        @ string_of_nat (status r) @ '' - '' @ body_text r)),
           st\<lparr>sent := sent st @ [wf_token_request cfg]\<rparr>)"
    by (simp add: wf_getBearerToken_def wf_getBearerToken_try_def try_catch_def fetch_def)
next
  assume "net (length (sent st)) = Resolved r \<and> ok r \<and> parsed r = Inr data
      \<and> get_prop ''access_token'' (Some data) = Inr v \<and> js_not v"
  then show "wf_getBearerToken cfg net st =
          (Inl (Error ''Token retrieval error: No access_token received from Adobe IMS''),
           st\<lparr>sent := sent st @ [wf_token_request cfg]\<rparr>)"
    by (auto simp: wf_getBearerToken_def wf_getBearerToken_try_def try_catch_def fetch_def js_not_def
        split: option.splits)
next
  show "''Token retrieval error: Adobe IMS authentication error: '' @ x
        \<noteq> ''Token retrieval error: No access_token received from Adobe IMS''"
    by simp
next
  assume "net (length (sent st)) = Resolved r \<and> \<not> ok r \<and> \<not> declared_json r"
  then show "aem_getBearerToken cfg net st =
          (Inl (Error (''Adobe IMS authentication error: '' @ string_of_nat (status r) @ '' - ''
                        @ JSON_stringify (JStr (body_text r)))),
           st\<lparr>sent := sent st @ [aem_fetch_request (tokenUrl (ims cfg)) (aem_token_options cfg)]\<rparr>)"
    using aem_makeRequest_text [of net st r "tokenUrl (ims cfg)" "aem_token_options cfg"]
    by (simp add: aem_getBearerToken_def)
next
  assume "net (length (sent st)) = Resolved r \<and> \<not> ok r \<and> declared_json r \<and> parsed r = Inr data"
  then show "aem_getBearerToken cfg net st =
          (Inl (Error (''Adobe IMS authentication error: '' @ string_of_nat (status r) @ '' - ''
                        @ JSON_stringify data)),
           st\<lparr>sent := sent st @ [aem_fetch_request (tokenUrl (ims cfg)) (aem_token_options cfg)]\<rparr>)"
    using aem_makeRequest_json [of net st r data "tokenUrl (ims cfg)" "aem_token_options cfg"]
    by (simp add: aem_getBearerToken_def)
next
  assume "net (length (sent st)) = Resolved r \<and> ok r \<and> declared_json r \<and> parsed r = Inr data
      \<and> get_prop ''access_token'' (Some data) = Inr v \<and> js_not v"
  then show "aem_getBearerToken cfg net st =
          (Inl (Error ''No access_token received from Adobe IMS''),
           st\<lparr>sent := sent st @ [aem_fetch_request (tokenUrl (ims cfg)) (aem_token_options cfg)]\<rparr>)"
    using aem_makeRequest_json [of net st r data "tokenUrl (ims cfg)" "aem_token_options cfg"]
    by (auto simp: aem_getBearerToken_def js_not_def split: option.splits)
next
  show "''Adobe IMS authentication error: '' @ x \<noteq> ''No access_token received from Adobe IMS''"
    by simp
qed

theorem getBearerToken_failures_witness:
  "wf_getBearerToken sample_config (script [Resolved (text_response 500 ''ims down'')]) initial_state =
     (Inl (Error ''Token retrieval error: Adobe IMS authentication error: 500 - ims down''),
      \<lparr>bearerToken = JNull, sent = [wf_token_request sample_config]\<rparr>)
   \<and> wf_getBearerToken sample_config (script [Resolved (json_response 200 no_token_body)]) initial_state =
     (Inl (Error ''Token retrieval error: No access_token received from Adobe IMS''),
      \<lparr>bearerToken = JNull, sent = [wf_token_request sample_config]\<rparr>)
   \<and> aem_getBearerToken sample_config (script [Resolved (text_response 500 ''ims down'')]) initial_state =
     (Inl (Error (''Adobe IMS authentication error: 500 - '' @ JSON_stringify (JStr ''ims down''))),
      \<lparr>bearerToken = JNull,
       sent = [aem_fetch_request (tokenUrl (ims sample_config)) (aem_token_options sample_config)]\<rparr>)
   \<and> aem_getBearerToken sample_config (script [Resolved (json_response 400 no_token_body)]) initial_state =
     (Inl (Error (''Adobe IMS authentication error: 400 - '' @ JSON_stringify no_token_body)),
      \<lparr>bearerToken = JNull,
       sent = [aem_fetch_request (tokenUrl (ims sample_config)) (aem_token_options sample_config)]\<rparr>)
   \<and> aem_getBearerToken sample_config (script [Resolved (json_response 200 no_token_body)]) initial_state =
     (Inl (Error ''No access_token received from Adobe IMS''),
      \<lparr>bearerToken = JNull,
       sent = [aem_fetch_request (tokenUrl (ims sample_config)) (aem_token_options sample_config)]\<rparr>)"
proof -
  note t = getBearerToken_failures [where cfg = sample_config and st = initial_state]
  have s400: "string_of_nat 400 = ''400''"
    by (simp add: string_of_nat.simps digit_char_def)
  have g: "get_prop ''access_token'' (Some no_token_body) = Inr None"
    by (simp add: no_token_body_def)
  have 1: "wf_getBearerToken sample_config (script [Resolved (text_response 500 ''ims down'')]) initial_state =
     (Inl (Error (''Token retrieval error: Adobe IMS authentication error: '' @ string_of_nat 500 @ '' - '' @ ''ims down'')),
      initial_state\<lparr>sent := sent initial_state @ [wf_token_request sample_config]\<rparr>)"
    using t [where net = "script [Resolved (text_response 500 ''ims down'')]"
        and r = "text_response 500 ''ims down''", THEN conjunct1]
    by (simp add: initial_state_def)
  have 2: "wf_getBearerToken sample_config (script [Resolved (json_response 200 no_token_body)]) initial_state =
     (Inl (Error ''Token retrieval error: No access_token received from Adobe IMS''),
      initial_state\<lparr>sent := sent initial_state @ [wf_token_request sample_config]\<rparr>)"
    using t [where net = "script [Resolved (json_response 200 no_token_body)]"
        and r = "json_response 200 no_token_body" and data = no_token_body and v = None,
        THEN conjunct2, THEN conjunct1] g
    by (simp add: initial_state_def js_not_def)
  have 3: "aem_getBearerToken sample_config (script [Resolved (text_response 500 ''ims down'')]) initial_state =
     (Inl (Error (''Adobe IMS authentication error: '' @ string_of_nat 500 @ '' - '' @ JSON_stringify (JStr ''ims down''))),
      initial_state\<lparr>sent := sent initial_state @
        [aem_fetch_request (tokenUrl (ims sample_config)) (aem_token_options sample_config)]\<rparr>)"
    using t [where net = "script [Resolved (text_response 500 ''ims down'')]"
        and r = "text_response 500 ''ims down''",
        THEN conjunct2, THEN conjunct2, THEN conjunct2, THEN conjunct1]
    by (simp add: initial_state_def)
  have 4: "aem_getBearerToken sample_config (script [Resolved (json_response 400 no_token_body)]) initial_state =
     (Inl (Error (''Adobe IMS authentication error: '' @ string_of_nat 400 @ '' - '' @ JSON_stringify no_token_body)),
      initial_state\<lparr>sent := sent initial_state @
        [aem_fetch_request (tokenUrl (ims sample_config)) (aem_token_options sample_config)]\<rparr>)"
    using t [where net = "script [Resolved (json_response 400 no_token_body)]"
        and r = "json_response 400 no_token_body" and data = no_token_body,
        THEN conjunct2, THEN conjunct2, THEN conjunct2, THEN conjunct2, THEN conjunct1]
    by (simp add: initial_state_def)
  have 5: "aem_getBearerToken sample_config (script [Resolved (json_response 200 no_token_body)]) initial_state =
     (Inl (Error ''No access_token received from Adobe IMS''),
      initial_state\<lparr>sent := sent initial_state @
        [aem_fetch_request (tokenUrl (ims sample_config)) (aem_token_options sample_config)]\<rparr>)"
    using t [where net = "script [Resolved (json_response 200 no_token_body)]"
        and r = "json_response 200 no_token_body" and data = no_token_body and v = None,
        THEN conjunct2, THEN conjunct2, THEN conjunct2, THEN conjunct2, THEN conjunct2, THEN conjunct1] g
    by (simp add: initial_state_def js_not_def)
  from 1 2 3 4 5 show ?thesis
    by (simp add: string_of_nat_500 s400 initial_state_def)
qed

text \<open>
  Claim C5. \<^verbatim>\<open>ensureValidToken\<close> is a presence check: with a token cached it returns that
  token and leaves the state as it was, so it sends nothing, whatever the network would
  answer; with none cached it is \<^verbatim>\<open>getBearerToken\<close>. The state holds no expiry time, so an
  expired token is returned like any other.
\<close>

theorem ensureValidToken_presence_check:
  "(truthy (bearerToken st) \<longrightarrow>
      wf_ensureValidToken cfg net st = (Inr (bearerToken st), st)
    \<and> aem_ensureValidToken cfg net st = (Inr (bearerToken st), st))
   \<and> (\<not> truthy (bearerToken st) \<longrightarrow>
      wf_ensureValidToken cfg net st = wf_getBearerToken cfg net st
    \<and> aem_ensureValidToken cfg net st = aem_getBearerToken cfg net st)"
  by (auto simp: wf_ensureValidToken_def aem_ensureValidToken_def
      split: prod.splits sum.splits dest: wf_getBearerToken_Inr aem_getBearerToken_Inr)

theorem ensureValidToken_presence_check_witness:
  "wf_ensureValidToken sample_config (script []) (cached ''T'') = (Inr (JStr ''T''), cached ''T'')
   \<and> aem_ensureValidToken sample_config (script []) (cached ''T'') = (Inr (JStr ''T''), cached ''T'')
   \<and> wf_ensureValidToken sample_config (script [Resolved (token_response ''T'')]) initial_state =
       wf_getBearerToken sample_config (script [Resolved (token_response ''T'')]) initial_state
   \<and> aem_ensureValidToken sample_config (script [Resolved (token_response ''T'')]) initial_state =
       aem_getBearerToken sample_config (script [Resolved (token_response ''T'')]) initial_state"
  using ensureValidToken_presence_check [of "cached ''T''" sample_config "script []"]
    ensureValidToken_presence_check [of initial_state sample_config "script [Resolved (token_response ''T'')]"]
  by (simp add: cached_def initial_state_def)

text \<open>
  Claim C10. In both adapters, when \<^verbatim>\<open>getBearerToken\<close> fails because the token endpoint
  answered with a non-2xx status, or with a 2xx status and a body that has no truthy
  \<^verbatim>\<open>access_token\<close> (for the AEM adapter also a body it reads as text), the call fails and the
  cached token is what it was before the call. The store happens only after both checks have
  passed: whenever the cached token after a call differs from the one before it, the answer
  was a 2xx whose body has a truthy \<^verbatim>\<open>access_token\<close>, and that is the token now cached.
\<close>

theorem failed_getBearerToken_keeps_token:
  "(net (length (sent st)) = Resolved r
      \<and> (\<not> ok r
         \<or> (ok r \<and> parsed r = Inr data \<and> get_prop ''access_token'' (Some data) = Inr v \<and> js_not v))
    \<longrightarrow> isl (fst (wf_getBearerToken cfg net st))
        \<and> bearerToken (snd (wf_getBearerToken cfg net st)) = bearerToken st)
   \<and> (net (length (sent st)) = Resolved r
      \<and> (\<not> ok r
         \<or> (ok r \<and> \<not> declared_json r)
         \<or> (ok r \<and> declared_json r \<and> parsed r = Inr data
             \<and> get_prop ''access_token'' (Some data) = Inr v \<and> js_not v))
    \<longrightarrow> isl (fst (aem_getBearerToken cfg net st))
        \<and> bearerToken (snd (aem_getBearerToken cfg net st)) = bearerToken st)
   \<and> (bearerToken (snd (wf_getBearerToken cfg net st)) \<noteq> bearerToken st
    \<longrightarrow> (case net (length (sent st)) of
           Rejected m \<Rightarrow> False
         | Resolved r' \<Rightarrow>
             ok r'
             \<and> (case parsed r' of
                  Inl m \<Rightarrow> False
                | Inr data' \<Rightarrow>
                    get_prop ''access_token'' (Some data') =
                      Inr (Some (bearerToken (snd (wf_getBearerToken cfg net st)))))
             \<and> truthy (bearerToken (snd (wf_getBearerToken cfg net st)))))
   \<and> (bearerToken (snd (aem_getBearerToken cfg net st)) \<noteq> bearerToken st
    \<longrightarrow> (case net (length (sent st)) of
           Rejected m \<Rightarrow> False
         | Resolved r' \<Rightarrow>
             ok r' \<and> declared_json r'
             \<and> (case parsed r' of
                  Inl m \<Rightarrow> False
                | Inr data' \<Rightarrow>
                    get_prop ''access_token'' (Some data') =
                      Inr (Some (bearerToken (snd (aem_getBearerToken cfg net st)))))
             \<and> truthy (bearerToken (snd (aem_getBearerToken cfg net st)))))"
proof (intro conjI impI)
  assume a: "net (length (sent st)) = Resolved r
      \<and> (\<not> ok r
         \<or> (ok r \<and> parsed r = Inr data \<and> get_prop ''access_token'' (Some data) = Inr v \<and> js_not v))"
  then show "isl (fst (wf_getBearerToken cfg net st))"
    and "bearerToken (snd (wf_getBearerToken cfg net st)) = bearerToken st"
    by (auto simp: wf_getBearerToken_def wf_getBearerToken_try_def try_catch_def fetch_def js_not_def
        split: option.splits)
next
  assume a: "net (length (sent st)) = Resolved r
      \<and> (\<not> ok r
         \<or> (ok r \<and> \<not> declared_json r)
         \<or> (ok r \<and> declared_json r \<and> parsed r = Inr data
             \<and> get_prop ''access_token'' (Some data) = Inr v \<and> js_not v))"
  then show "isl (fst (aem_getBearerToken cfg net st))"
    and "bearerToken (snd (aem_getBearerToken cfg net st)) = bearerToken st"
    by (auto simp: aem_getBearerToken_def aem_makeRequest_def try_catch_def fetch_def js_not_def
        split: option.splits sum.splits)
next
  assume "bearerToken (snd (wf_getBearerToken cfg net st)) \<noteq> bearerToken st"
  then show "case net (length (sent st)) of
           Rejected m \<Rightarrow> False
         | Resolved r' \<Rightarrow>
             ok r'
             \<and> (case parsed r' of
                  Inl m \<Rightarrow> False
                | Inr data' \<Rightarrow>
                    get_prop ''access_token'' (Some data') =
                      Inr (Some (bearerToken (snd (wf_getBearerToken cfg net st)))))
             \<and> truthy (bearerToken (snd (wf_getBearerToken cfg net st)))"
    by (auto simp: wf_getBearerToken_def wf_getBearerToken_try_def try_catch_def fetch_def
        split: fetch_result.splits option.splits sum.splits if_splits)
next
  assume "bearerToken (snd (aem_getBearerToken cfg net st)) \<noteq> bearerToken st"
  then show "case net (length (sent st)) of
           Rejected m \<Rightarrow> False
         | Resolved r' \<Rightarrow>
             ok r' \<and> declared_json r'
             \<and> (case parsed r' of
                  Inl m \<Rightarrow> False
                | Inr data' \<Rightarrow>
                    get_prop ''access_token'' (Some data') =
                      Inr (Some (bearerToken (snd (aem_getBearerToken cfg net st)))))
             \<and> truthy (bearerToken (snd (aem_getBearerToken cfg net st)))"
    by (auto simp: aem_getBearerToken_def aem_makeRequest_def try_catch_def fetch_def
        split: fetch_result.splits option.splits sum.splits if_splits)
qed

theorem failed_getBearerToken_keeps_token_witness:
  "isl (fst (wf_getBearerToken sample_config (script [Resolved (text_response 500 ''boom'')]) (cached ''OLD'')))
   \<and> bearerToken (snd (wf_getBearerToken sample_config (script [Resolved (text_response 500 ''boom'')])
        (cached ''OLD''))) = JStr ''OLD''
   \<and> isl (fst (wf_getBearerToken sample_config (script [Resolved (json_response 200 no_token_body)])
        (cached ''OLD'')))
   \<and> bearerToken (snd (wf_getBearerToken sample_config (script [Resolved (json_response 200 no_token_body)])
        (cached ''OLD''))) = JStr ''OLD''
   \<and> isl (fst (aem_getBearerToken sample_config (script [Resolved (json_response 400 no_token_body)])
        (cached ''OLD'')))
   \<and> bearerToken (snd (aem_getBearerToken sample_config (script [Resolved (json_response 400 no_token_body)])
        (cached ''OLD''))) = JStr ''OLD''
   \<and> isl (fst (aem_getBearerToken sample_config (script [Resolved (undeclared_token_response ''NEW'')])
        (cached ''OLD'')))
   \<and> bearerToken (snd (aem_getBearerToken sample_config (script [Resolved (undeclared_token_response ''NEW'')])
        (cached ''OLD''))) = JStr ''OLD''
   \<and> bearerToken (snd (wf_getBearerToken sample_config (script [Resolved (token_response ''NEW'')])
        (cached ''OLD''))) = JStr ''NEW''
   \<and> bearerToken (snd (aem_getBearerToken sample_config (script [Resolved (token_response ''NEW'')])
        (cached ''OLD''))) = JStr ''NEW''
   \<and> ok (token_response ''NEW'')
   \<and> get_prop ''access_token''
        (Some (JObj [(''access_token'', JStr ''NEW''), (''expires_in'', JNum True ''3600'')])) =
      Inr (Some (JStr ''NEW''))"
proof -
  note t = failed_getBearerToken_keeps_token [where cfg = sample_config and st = "cached ''OLD''"]
  have g: "get_prop ''access_token'' (Some no_token_body) = Inr None"
    by (simp add: no_token_body_def)
  have u: "status (undeclared_token_response ''NEW'') = 200" "ok (undeclared_token_response ''NEW'')"
    "\<not> declared_json (undeclared_token_response ''NEW'')"
    by (simp_all add: undeclared_token_response_def ok_def declared_json_def)
  have 1: "isl (fst (wf_getBearerToken sample_config (script [Resolved (text_response 500 ''boom'')]) (cached ''OLD'')))
      \<and> bearerToken (snd (wf_getBearerToken sample_config (script [Resolved (text_response 500 ''boom'')])
        (cached ''OLD''))) = bearerToken (cached ''OLD'')"
    using t [where net = "script [Resolved (text_response 500 ''boom'')]" and r = "text_response 500 ''boom''",
        THEN conjunct1]
    by simp
  have 2: "isl (fst (wf_getBearerToken sample_config (script [Resolved (json_response 200 no_token_body)])
        (cached ''OLD'')))
      \<and> bearerToken (snd (wf_getBearerToken sample_config (script [Resolved (json_response 200 no_token_body)])
        (cached ''OLD''))) = bearerToken (cached ''OLD'')"
    using t [where net = "script [Resolved (json_response 200 no_token_body)]"
        and r = "json_response 200 no_token_body" and data = no_token_body and v = None, THEN conjunct1] g
    by (simp add: js_not_def)
  have 3: "isl (fst (aem_getBearerToken sample_config (script [Resolved (json_response 400 no_token_body)])
        (cached ''OLD'')))
      \<and> bearerToken (snd (aem_getBearerToken sample_config (script [Resolved (json_response 400 no_token_body)])
        (cached ''OLD''))) = bearerToken (cached ''OLD'')"
    using t [where net = "script [Resolved (json_response 400 no_token_body)]"
        and r = "json_response 400 no_token_body", THEN conjunct2, THEN conjunct1]
    by simp
  have 4: "isl (fst (aem_getBearerToken sample_config (script [Resolved (undeclared_token_response ''NEW'')])
        (cached ''OLD'')))
      \<and> bearerToken (snd (aem_getBearerToken sample_config (script [Resolved (undeclared_token_response ''NEW'')])
        (cached ''OLD''))) = bearerToken (cached ''OLD'')"
    using t [where net = "script [Resolved (undeclared_token_response ''NEW'')]"
        and r = "undeclared_token_response ''NEW''", THEN conjunct2, THEN conjunct1] u
    by simp
  have 5: "bearerToken (snd (wf_getBearerToken sample_config (script [Resolved (token_response ''NEW'')])
        (cached ''OLD''))) = JStr ''NEW''"
    by (simp add: wf_getBearerToken_def wf_getBearerToken_try_def try_catch_def fetch_def)
  have 6: "bearerToken (snd (aem_getBearerToken sample_config (script [Resolved (token_response ''NEW'')])
        (cached ''OLD''))) = JStr ''NEW''"
    by (simp add: aem_getBearerToken_def aem_makeRequest_def try_catch_def fetch_def)
  have 7: "ok (token_response ''NEW'')
      \<and> get_prop ''access_token''
        (Some (JObj [(''access_token'', JStr ''NEW''), (''expires_in'', JNum True ''3600'')])) =
      Inr (Some (JStr ''NEW''))"
    using t [where net = "script [Resolved (token_response ''NEW'')]", THEN conjunct2, THEN conjunct2, THEN conjunct1] 5
      t [where net = "script [Resolved (token_response ''NEW'')]", THEN conjunct2, THEN conjunct2, THEN conjunct2] 6
    by simp
  from 1 2 3 4 5 6 7 show ?thesis by simp
qed

section \<open>Authenticated requests: renewal and retry\<close>

text \<open>The \<^verbatim>\<open>try\<close> block of \<^verbatim>\<open>makeWorkfrontRequest\<close>, by the first response: anything but a 401
  is final after one request; a 401 starts one renewal; a renewal that fails, or whose token
  the header's template literal cannot print, ends the call; otherwise one more request
  follows, whose outcome is final.\<close>

lemma wf_try_not_401:
  assumes "net (length (sent st1)) = Resolved r1" and "status r1 \<noteq> 401"
  shows "wf_makeWorkfrontRequest_try cfg net req st1 =
     ((if \<not> ok r1 then
         Inl (Error (''Workfront API error: '' @ string_of_nat (status r1) @ '' - '' @ body_text r1))
       else (case parsed r1 of Inl m \<Rightarrow> Inl (SyntaxError m) | Inr j \<Rightarrow> Inr j)),
      st1\<lparr>sent := sent st1 @ [req]\<rparr>)"
  using assms by (simp add: wf_makeWorkfrontRequest_try_def fetch_def split: sum.splits)

lemma wf_try_401_renewal_failed:
  assumes "net (length (sent st1)) = Resolved r1" and "status r1 = 401"
    and "wf_getBearerToken cfg net (st1\<lparr>sent := sent st1 @ [req]\<rparr>) = (Inl e, st2)"
  shows "wf_makeWorkfrontRequest_try cfg net req st1 = (Inl e, st2)"
    and "sent st2 = sent st1 @ [req, wf_token_request cfg]"
  using assms wf_getBearerToken_sent [of cfg net "st1\<lparr>sent := sent st1 @ [req]\<rparr>"]
  by (simp_all add: wf_makeWorkfrontRequest_try_def fetch_def)

lemma wf_try_401_unprintable:
  assumes "net (length (sent st1)) = Resolved r1" and "status r1 = 401"
    and "wf_getBearerToken cfg net (st1\<lparr>sent := sent st1 @ [req]\<rparr>) = (Inr t2, st2)"
    and "js_String t2 = Inl e"
  shows "wf_makeWorkfrontRequest_try cfg net req st1 =
           (Inl e, st1\<lparr>sent := sent st1 @ [req, wf_token_request cfg], bearerToken := t2\<rparr>)"
  using assms wf_getBearerToken_Inr [OF assms(3)]
  by (simp add: wf_makeWorkfrontRequest_try_def fetch_def set_authorization_def)

lemma wf_try_401_renewed:
  assumes "net (length (sent st1)) = Resolved r1" and "status r1 = 401"
    and "wf_getBearerToken cfg net (st1\<lparr>sent := sent st1 @ [req]\<rparr>) = (Inr t2, st2)"
    and "js_String t2 = Inr b"
  shows "wf_makeWorkfrontRequest_try cfg net req st1 =
     ((case net (length (sent st1) + 2) of
         Rejected m \<Rightarrow> Inl (TypeError m)
       | Resolved r2 \<Rightarrow>
           if \<not> ok r2 then
             Inl (Error (''Workfront API error after token renewal: '' @ string_of_nat (status r2)
                          @ '' - '' @ body_text r2))
           else (case parsed r2 of Inl m \<Rightarrow> Inl (SyntaxError m) | Inr j \<Rightarrow> Inr j)),
      st1\<lparr>sent := sent st1 @ [req, wf_token_request cfg,
                               set_header ''Authorization'' (''Bearer '' @ b) req],
          bearerToken := t2\<rparr>)"
  using assms wf_getBearerToken_Inr [OF assms(3)]
  by (simp add: wf_makeWorkfrontRequest_try_def fetch_def set_authorization_def
      split: fetch_result.splits sum.splits)

lemma set_header_lookup: "map_of (headers (set_header k v req)) k = Some v"
  by (simp add: set_header_def update_conv')

lemma aem_makeAEMRequest_not_ok:
  assumes "aem_ensureValidToken cfg net st = (Inr t, st1)"
    and "aem_requestOptions cfg (bearerToken st1) aopts = Inr ro"
    and "net (length (sent st1)) = Resolved r1" and "\<not> ok r1"
  shows "isl (fst (aem_makeAEMRequest cfg net u aopts st))
       \<and> snd (aem_makeAEMRequest cfg net u aopts st) =
           st1\<lparr>sent := sent st1 @ [aem_fetch_request u ro]\<rparr>"
  using assms
  by (auto simp: aem_makeAEMRequest_def aem_makeRequest_def try_catch_def fetch_def
      split: sum.splits)

lemma projects_request_simps [simp]:
  "wf_requestOptions (baseUrl sample_config @ projects_endpoint) (JStr t) no_options =
     Inr (projects_request (''Bearer '' @ t))"
  "set_header ''Authorization'' a' (projects_request a) = projects_request a'"
  by (simp_all add: wf_requestOptions_def no_options_def spread_def projects_request_def
      sample_config_def projects_endpoint_def set_header_def)

lemma folders_request_simps [simp]:
  "aem_requestOptions sample_config (JStr t) no_aem_options =
     Inr \<lparr> opt_method = Some ''GET'',
           opt_headers = Some [(''Authorization'', ''Bearer '' @ t), (''x-api-key'', ''client-id''),
                               (''Content-Type'', ''application/json'')],
           opt_body = None \<rparr>"
  "aem_fetch_request folders_url
     \<lparr> opt_method = Some ''GET'',
       opt_headers = Some [(''Authorization'', a), (''x-api-key'', ''client-id''),
                           (''Content-Type'', ''application/json'')],
       opt_body = None \<rparr> = folders_request a"
  by (simp_all add: aem_requestOptions_def no_aem_options_def spread_def folders_request_def
      sample_config_def aem_fetch_request_def)

lemma renewal_samples:
  "wf_getBearerToken sample_config renewal_fails_script
      (cached ''OLD''\<lparr>sent := sent (cached ''OLD'') @ [projects_request ''Bearer OLD'']\<rparr>) =
     (Inl (Error ''Token retrieval error: Adobe IMS authentication error: 500 - ims down''),
      \<lparr>bearerToken = JStr ''OLD'', sent = [projects_request ''Bearer OLD'', wf_token_request sample_config]\<rparr>)"
  "wf_getBearerToken sample_config renewal_works_script
      (cached ''OLD''\<lparr>sent := sent (cached ''OLD'') @ [projects_request ''Bearer OLD'']\<rparr>) =
     (Inr (JStr ''NEW''),
      \<lparr>bearerToken = JStr ''NEW'', sent = [projects_request ''Bearer OLD'', wf_token_request sample_config]\<rparr>)"
  "wf_getBearerToken sample_config renewal_unprintable_script
      (cached ''OLD''\<lparr>sent := sent (cached ''OLD'') @ [projects_request ''Bearer OLD'']\<rparr>) =
     (Inr unprintable,
      \<lparr>bearerToken = unprintable, sent = [projects_request ''Bearer OLD'', wf_token_request sample_config]\<rparr>)"
  "wf_getBearerToken sample_config retry_script
      (cached ''OLD''\<lparr>sent := sent (cached ''OLD'') @ [projects_request ''Bearer OLD'']\<rparr>) =
     (Inr (JStr ''NEW''),
      \<lparr>bearerToken = JStr ''NEW'', sent = [projects_request ''Bearer OLD'', wf_token_request sample_config]\<rparr>)"
  "wf_getBearerToken sample_config retry_not_found_script
      (cached ''OLD''\<lparr>sent := sent (cached ''OLD'') @ [projects_request ''Bearer OLD'']\<rparr>) =
     (Inr (JStr ''NEW''),
      \<lparr>bearerToken = JStr ''NEW'', sent = [projects_request ''Bearer OLD'', wf_token_request sample_config]\<rparr>)"
  by (simp_all add: wf_getBearerToken_def wf_getBearerToken_try_def try_catch_def fetch_def
      renewal_fails_script_def renewal_works_script_def renewal_unprintable_script_def
      retry_script_def retry_not_found_script_def
      string_of_nat_500 unprintable_token_response_def unprintable_def token_log_def js_String_val_def)

text \<open>
  Claim C1, as stated, fails. The AEM adapter has no renewal and no retry:
  \<^verbatim>\<open>makeAEMRequest\<close> surfaces a 401 like any other non-2xx status, after its single request and
  with the cached token untouched, even where the network would have answered a renewal
  and a retry. And in the Workfront adapter a renewal that fails ends the call, and so does
  a renewed token that the \<^verbatim>\<open>Authorization\<close> header's template literal cannot print: the
  request is not sent again.
\<close>

theorem aem_401_is_final_without_renewal:
  "aem_makeAEMRequest sample_config renewal_works_script folders_url no_aem_options (cached ''OLD'') =
     (Inl (Error (''AEM API error: 401 - '' @ JSON_stringify (JStr ''token expired''))),
      \<lparr>bearerToken = JStr ''OLD'', sent = [folders_request ''Bearer OLD'']\<rparr>)
   \<and> wf_makeWorkfrontRequest sample_config renewal_fails_script projects_endpoint no_options (cached ''OLD'') =
     (Inl (Error ''Workfront request error: Token retrieval error: Adobe IMS authentication error: 500 - ims down''),
      \<lparr>bearerToken = JStr ''OLD'', sent = [projects_request ''Bearer OLD'', wf_token_request sample_config]\<rparr>)
   \<and> wf_makeWorkfrontRequest sample_config renewal_unprintable_script projects_endpoint no_options
       (cached ''OLD'') =
     (Inl (Error ''Workfront request error: Cannot convert object to primitive value''),
      \<lparr>bearerToken = unprintable, sent = [projects_request ''Bearer OLD'', wf_token_request sample_config]\<rparr>)"
  by (simp add: aem_makeAEMRequest_def aem_makeRequest_def fetch_def try_catch_def
      renewal_works_script_def renewal_fails_script_def renewal_unprintable_script_def
      string_of_nat_401 string_of_nat_500 unprintable_token_response_def
      wf_makeWorkfrontRequest_def wf_makeWorkfrontRequest_try_def wf_getBearerToken_def
      wf_getBearerToken_try_def set_authorization_def cannot_convert_def unprintable_def
      token_log_def js_String_val_def)

text \<open>
  Claim C1, amended. In the Workfront adapter, when the first response to an authenticated
  request has status 401, \<^verbatim>\<open>getBearerToken\<close> runs exactly once. If it fails, or if the token
  it returns cannot be printed into the \<^verbatim>\<open>Authorization\<close> header, the error is surfaced and
  nothing more is sent. Otherwise the request is sent exactly once more, with its
  \<^verbatim>\<open>Authorization\<close> header set to the new token, and the outcome of that second request,
  success or failure, is the result; nothing more is sent. In the AEM adapter a 401 is a
  final error after the single request, with no renewal and no retry.
\<close>

theorem renewal_and_single_retry_on_401:
  "(wf_ensureValidToken cfg net st = (Inr t, st1)
      \<and> wf_requestOptions (baseUrl cfg @ endpoint) (bearerToken st1) options = Inr req
      \<and> net (length (sent st1)) = Resolved r1 \<and> status r1 = 401
      \<and> wf_getBearerToken cfg net (st1\<lparr>sent := sent st1 @ [req]\<rparr>) = (Inl e, st2)
    \<longrightarrow> wf_makeWorkfrontRequest cfg net endpoint options st =
          (Inl (Error (''Workfront request error: '' @ message e)), st2)
        \<and> sent st2 = sent st1 @ [req, wf_token_request cfg])
   \<and> (wf_ensureValidToken cfg net st = (Inr t, st1)
      \<and> wf_requestOptions (baseUrl cfg @ endpoint) (bearerToken st1) options = Inr req
      \<and> net (length (sent st1)) = Resolved r1 \<and> status r1 = 401
      \<and> wf_getBearerToken cfg net (st1\<lparr>sent := sent st1 @ [req]\<rparr>) = (Inr t2, st2)
      \<and> js_String t2 = Inl e
    \<longrightarrow> wf_makeWorkfrontRequest cfg net endpoint options st =
          (Inl (Error (''Workfront request error: '' @ message e)),
           st1\<lparr>sent := sent st1 @ [req, wf_token_request cfg], bearerToken := t2\<rparr>))
   \<and> (wf_ensureValidToken cfg net st = (Inr t, st1)
      \<and> wf_requestOptions (baseUrl cfg @ endpoint) (bearerToken st1) options = Inr req
      \<and> net (length (sent st1)) = Resolved r1 \<and> status r1 = 401
      \<and> wf_getBearerToken cfg net (st1\<lparr>sent := sent st1 @ [req]\<rparr>) = (Inr t2, st2)
      \<and> js_String t2 = Inr b
    \<longrightarrow> snd (wf_makeWorkfrontRequest cfg net endpoint options st) =
            st1\<lparr>sent := sent st1 @ [req, wf_token_request cfg,
                                     set_header ''Authorization'' (''Bearer '' @ b) req],
                bearerToken := t2\<rparr>
        \<and> map_of (headers (set_header ''Authorization'' (''Bearer '' @ b) req)) ''Authorization''
            = Some (''Bearer '' @ b)
        \<and> fst (wf_makeWorkfrontRequest cfg net endpoint options st) =
            (case net (length (sent st1) + 2) of
               Rejected m \<Rightarrow> Inl (Error (''Workfront request error: '' @ m))
             | Resolved r2 \<Rightarrow>
                 if \<not> ok r2 then
                   Inl (Error (''Workfront request error: Workfront API error after token renewal: ''
                                @ string_of_nat (status r2) @ '' - '' @ body_text r2))
                 else (case parsed r2 of
                         Inl m \<Rightarrow> Inl (Error (''Workfront request error: '' @ m))
                       | Inr j \<Rightarrow> Inr j)))
   \<and> (aem_ensureValidToken cfg net st = (Inr t, sa)
      \<and> aem_requestOptions cfg (bearerToken sa) aopts = Inr ro
      \<and> net (length (sent sa)) = Resolved r1 \<and> status r1 = 401
    \<longrightarrow> isl (fst (aem_makeAEMRequest cfg net u aopts st))
        \<and> snd (aem_makeAEMRequest cfg net u aopts st) = sa\<lparr>sent := sent sa @ [aem_fetch_request u ro]\<rparr>)"
proof (intro conjI impI)
  assume a: "wf_ensureValidToken cfg net st = (Inr t, st1)
      \<and> wf_requestOptions (baseUrl cfg @ endpoint) (bearerToken st1) options = Inr req
      \<and> net (length (sent st1)) = Resolved r1 \<and> status r1 = 401
      \<and> wf_getBearerToken cfg net (st1\<lparr>sent := sent st1 @ [req]\<rparr>) = (Inl e, st2)"
  then have f: "net (length (sent st1)) = Resolved r1" "status r1 = 401"
    and g: "wf_getBearerToken cfg net (st1\<lparr>sent := sent st1 @ [req]\<rparr>) = (Inl e, st2)"
    by blast+
  from a wf_try_401_renewal_failed(1) [OF f g]
  show "wf_makeWorkfrontRequest cfg net endpoint options st =
          (Inl (Error (''Workfront request error: '' @ message e)), st2)"
    by (simp add: wf_makeWorkfrontRequest_def try_catch_def)
  from wf_try_401_renewal_failed(2) [OF f g]
  show "sent st2 = sent st1 @ [req, wf_token_request cfg]" .
next
  assume a: "wf_ensureValidToken cfg net st = (Inr t, st1)
      \<and> wf_requestOptions (baseUrl cfg @ endpoint) (bearerToken st1) options = Inr req
      \<and> net (length (sent st1)) = Resolved r1 \<and> status r1 = 401
      \<and> wf_getBearerToken cfg net (st1\<lparr>sent := sent st1 @ [req]\<rparr>) = (Inr t2, st2)
      \<and> js_String t2 = Inl e"
  then have f: "net (length (sent st1)) = Resolved r1" "status r1 = 401"
    and g: "wf_getBearerToken cfg net (st1\<lparr>sent := sent st1 @ [req]\<rparr>) = (Inr t2, st2)"
    and h: "js_String t2 = Inl e"
    by blast+
  from a wf_try_401_unprintable [OF f g h]
  show "wf_makeWorkfrontRequest cfg net endpoint options st =
          (Inl (Error (''Workfront request error: '' @ message e)),
           st1\<lparr>sent := sent st1 @ [req, wf_token_request cfg], bearerToken := t2\<rparr>)"
    by (simp add: wf_makeWorkfrontRequest_def try_catch_def)
next
  assume a: "wf_ensureValidToken cfg net st = (Inr t, st1)
      \<and> wf_requestOptions (baseUrl cfg @ endpoint) (bearerToken st1) options = Inr req
      \<and> net (length (sent st1)) = Resolved r1 \<and> status r1 = 401
      \<and> wf_getBearerToken cfg net (st1\<lparr>sent := sent st1 @ [req]\<rparr>) = (Inr t2, st2)
      \<and> js_String t2 = Inr b"
  then have f: "net (length (sent st1)) = Resolved r1" "status r1 = 401"
    and g: "wf_getBearerToken cfg net (st1\<lparr>sent := sent st1 @ [req]\<rparr>) = (Inr t2, st2)"
    and h: "js_String t2 = Inr b"
    by blast+
  note tb = wf_try_401_renewed [OF f g h]
  from a tb show "snd (wf_makeWorkfrontRequest cfg net endpoint options st) =
            st1\<lparr>sent := sent st1 @ [req, wf_token_request cfg,
                                     set_header ''Authorization'' (''Bearer '' @ b) req],
                bearerToken := t2\<rparr>"
    by (simp add: wf_makeWorkfrontRequest_def try_catch_def split: fetch_result.splits sum.splits)
  show "map_of (headers (set_header ''Authorization'' (''Bearer '' @ b) req)) ''Authorization''
            = Some (''Bearer '' @ b)"
    by (rule set_header_lookup)
  from a tb show "fst (wf_makeWorkfrontRequest cfg net endpoint options st) =
            (case net (length (sent st1) + 2) of
               Rejected m \<Rightarrow> Inl (Error (''Workfront request error: '' @ m))
             | Resolved r2 \<Rightarrow>
                 if \<not> ok r2 then
                   Inl (Error (''Workfront request error: Workfront API error after token renewal: ''
                                @ string_of_nat (status r2) @ '' - '' @ body_text r2))
                 else (case parsed r2 of
                         Inl m \<Rightarrow> Inl (Error (''Workfront request error: '' @ m))
                       | Inr j \<Rightarrow> Inr j))"
    by (simp add: wf_makeWorkfrontRequest_def try_catch_def split: fetch_result.splits sum.splits)
next
  assume a: "aem_ensureValidToken cfg net st = (Inr t, sa)
      \<and> aem_requestOptions cfg (bearerToken sa) aopts = Inr ro
      \<and> net (length (sent sa)) = Resolved r1 \<and> status r1 = 401"
  then have "\<not> ok r1" by (simp add: ok_def)
  with a aem_makeAEMRequest_not_ok [of cfg net st t sa aopts ro r1 u]
  show "isl (fst (aem_makeAEMRequest cfg net u aopts st))"
    and "snd (aem_makeAEMRequest cfg net u aopts st) = sa\<lparr>sent := sent sa @ [aem_fetch_request u ro]\<rparr>"
    by simp_all
qed

theorem renewal_and_single_retry_on_401_witness:
  "wf_makeWorkfrontRequest sample_config renewal_fails_script projects_endpoint no_options (cached ''OLD'') =
     (Inl (Error ''Workfront request error: Token retrieval error: Adobe IMS authentication error: 500 - ims down''),
      \<lparr>bearerToken = JStr ''OLD'',
       sent = [projects_request ''Bearer OLD'', wf_token_request sample_config]\<rparr>)
   \<and> wf_makeWorkfrontRequest sample_config renewal_unprintable_script projects_endpoint no_options
       (cached ''OLD'') =
     (Inl (Error ''Workfront request error: Cannot convert object to primitive value''),
      \<lparr>bearerToken = unprintable,
       sent = [projects_request ''Bearer OLD'', wf_token_request sample_config]\<rparr>)
   \<and> wf_makeWorkfrontRequest sample_config renewal_works_script projects_endpoint no_options (cached ''OLD'') =
     (Inr (JObj [(''data'', JArr [])]),
      \<lparr>bearerToken = JStr ''NEW'',
       sent = [projects_request ''Bearer OLD'', wf_token_request sample_config,
               projects_request ''Bearer NEW'']\<rparr>)
   \<and> isl (fst (aem_makeAEMRequest sample_config renewal_works_script folders_url no_aem_options (cached ''OLD'')))
   \<and> snd (aem_makeAEMRequest sample_config renewal_works_script folders_url no_aem_options (cached ''OLD'')) =
      \<lparr>bearerToken = JStr ''OLD'', sent = [folders_request ''Bearer OLD'']\<rparr>"
proof -
  note t = renewal_and_single_retry_on_401 [where cfg = sample_config and st = "cached ''OLD''"
      and ?st1.0 = "cached ''OLD''" and t = "JStr ''OLD''" and endpoint = projects_endpoint
      and options = no_options and req = "projects_request ''Bearer OLD''"
      and ?r1.0 = "text_response 401 ''token expired''"]
  have 1: "wf_makeWorkfrontRequest sample_config renewal_fails_script projects_endpoint no_options (cached ''OLD'') =
     (Inl (Error (''Workfront request error: ''
         @ message (Error ''Token retrieval error: Adobe IMS authentication error: 500 - ims down''))),
      \<lparr>bearerToken = JStr ''OLD'', sent = [projects_request ''Bearer OLD'', wf_token_request sample_config]\<rparr>)"
    using t [where net = renewal_fails_script, THEN conjunct1] renewal_samples(1)
    by (simp add: renewal_fails_script_def)
  have 2: "wf_makeWorkfrontRequest sample_config renewal_unprintable_script projects_endpoint no_options
       (cached ''OLD'') =
     (Inl (Error (''Workfront request error: '' @ message cannot_convert)),
      cached ''OLD''\<lparr>sent := sent (cached ''OLD'') @ [projects_request ''Bearer OLD'', wf_token_request sample_config],
                bearerToken := unprintable\<rparr>)"
    using t [where net = renewal_unprintable_script and ?t2.0 = unprintable and e = cannot_convert,
        THEN conjunct2, THEN conjunct1] renewal_samples(3)
    by (simp add: renewal_unprintable_script_def)
  have 3: "snd (wf_makeWorkfrontRequest sample_config renewal_works_script projects_endpoint no_options (cached ''OLD'')) =
        cached ''OLD''\<lparr>sent := sent (cached ''OLD'') @ [projects_request ''Bearer OLD'', wf_token_request sample_config,
            set_header ''Authorization'' (''Bearer '' @ ''NEW'') (projects_request ''Bearer OLD'')],
                bearerToken := JStr ''NEW''\<rparr>
      \<and> fst (wf_makeWorkfrontRequest sample_config renewal_works_script projects_endpoint no_options (cached ''OLD'')) =
        Inr (JObj [(''data'', JArr [])])"
    using t [where net = renewal_works_script and ?t2.0 = "JStr ''NEW''" and b = "''NEW''",
        THEN conjunct2, THEN conjunct2, THEN conjunct1] renewal_samples(2)
    by (simp add: renewal_works_script_def numeral_2_eq_2)
  have 4: "isl (fst (aem_makeAEMRequest sample_config renewal_works_script folders_url no_aem_options (cached ''OLD'')))
      \<and> snd (aem_makeAEMRequest sample_config renewal_works_script folders_url no_aem_options (cached ''OLD'')) =
        cached ''OLD''\<lparr>sent := sent (cached ''OLD'') @ [folders_request ''Bearer OLD'']\<rparr>"
    using renewal_and_single_retry_on_401 [where cfg = sample_config and net = renewal_works_script
        and st = "cached ''OLD''" and sa = "cached ''OLD''" and ?r1.0 = "text_response 401 ''token expired''"
        and t = "JStr ''OLD''" and u = folders_url and aopts = no_aem_options
        and ro = "\<lparr> opt_method = Some ''GET'',
           opt_headers = Some [(''Authorization'', ''Bearer OLD''), (''x-api-key'', ''client-id''),
                               (''Content-Type'', ''application/json'')],
           opt_body = None \<rparr>",
        THEN conjunct2, THEN conjunct2, THEN conjunct2]
    by (simp add: renewal_works_script_def)
  from 1 2 3 4 show ?thesis
    by (simp add: prod_eq_iff cannot_convert_def)
qed

text \<open>
  Claim C2. When the first response is a 401, the one renewal succeeds (a 2xx answer with a
  truthy \<^verbatim>\<open>access_token\<close>, whose log line and header can be printed, so that the request is
  retried) and the response to the retried request is again a 401, \<^verbatim>\<open>makeWorkfrontRequest\<close>
  surfaces that second 401 as its error, and the calls of \<^verbatim>\<open>fetch\<close> are the first attempt, the
  token request and the retry: there is no third attempt.
\<close>

theorem second_401_is_final:
  assumes ensure: "wf_ensureValidToken cfg net st = (Inr t, st1)"
    and req: "wf_requestOptions (baseUrl cfg @ endpoint) (bearerToken st1) options = Inr req"
    and first: "net (length (sent st1)) = Resolved r1" "status r1 = 401"
    and renewal: "net (length (sent st1) + 1) = Resolved tr" "ok tr" "parsed tr = Inr (JObj fs)"
      "map_of fs ''access_token'' = Some t2" "truthy t2" "token_log (JObj fs) = Inr line"
    and header: "js_String t2 = Inr b"
    and second: "net (length (sent st1) + 2) = Resolved r2" "status r2 = 401"
  shows "wf_makeWorkfrontRequest cfg net endpoint options st =
     (Inl (Error (''Workfront request error: Workfront API error after token renewal: 401 - ''
                   @ body_text r2)),
      st1\<lparr>sent := sent st1 @ [req, wf_token_request cfg,
                               set_header ''Authorization'' (''Bearer '' @ b) req],
          bearerToken := t2\<rparr>)"
proof -
  have "wf_getBearerToken cfg net (st1\<lparr>sent := sent st1 @ [req]\<rparr>) =
      (Inr t2, st1\<lparr>sent := sent st1 @ [req]\<rparr>
                 \<lparr>sent := sent (st1\<lparr>sent := sent st1 @ [req]\<rparr>) @ [wf_token_request cfg], bearerToken := t2\<rparr>)"
    by (rule wf_getBearerToken_ok [OF _ renewal(2-6)]) (use renewal(1) in simp)
  from wf_try_401_renewed [OF first this header]
  show ?thesis using ensure req second
    by (simp add: wf_makeWorkfrontRequest_def try_catch_def ok_def string_of_nat_401)
qed

theorem second_401_is_final_witness:
  "wf_makeWorkfrontRequest sample_config retry_script ''/proj/search?fields=ID,name'' no_options (cached ''OLD'') =
     (Inl (Error ''Workfront request error: Workfront API error after token renewal: 401 - still unauthorized''),
      \<lparr>bearerToken = JStr ''NEW'',
       sent = [projects_request ''Bearer OLD'', wf_token_request sample_config,
               projects_request ''Bearer NEW'']\<rparr>)"
proof -
  have e: "wf_ensureValidToken sample_config retry_script (cached ''OLD'') = (Inr (JStr ''OLD''), cached ''OLD'')"
    by simp
  have q: "wf_requestOptions (baseUrl sample_config @ ''/proj/search?fields=ID,name'')
      (bearerToken (cached ''OLD'')) no_options = Inr (projects_request ''Bearer OLD'')"
    using projects_request_simps(1) [of "''OLD''"] by (simp add: projects_endpoint_def)
  have n0: "retry_script (length (sent (cached ''OLD''))) = Resolved (text_response 401 ''token expired'')"
    and n1: "retry_script (length (sent (cached ''OLD'')) + 1) = Resolved (token_response ''NEW'')"
    and n2: "retry_script (length (sent (cached ''OLD'')) + 2) = Resolved (text_response 401 ''still unauthorized'')"
    by (simp_all add: retry_script_def numeral_2_eq_2)
  have h: "js_String (JStr ''NEW'') = Inr ''NEW''" by simp
  from second_401_is_final [where ?t2.0 = "JStr ''NEW''" and endpoint = "''/proj/search?fields=ID,name''"
      and options = no_options and b = "''NEW''", OF e q n0 _ n1 _ _ _ _ _ h n2]
  show ?thesis by simp
qed

text \<open>
  Claim C7, as stated, fails in the AEM adapter: \<^verbatim>\<open>makeRequest\<close> reads the body before the
  status is looked at, so a 500 that declares JSON and has an empty body is surfaced as
  \<^verbatim>\<open>Request failed: Unexpected end of JSON input\<close>, an error that carries neither the status
  nor the body.
\<close>

theorem aem_unparsable_error_body_hides_status:
  "aem_makeAEMRequest sample_config (script [Resolved (empty_json_response 500)]) folders_url
       no_aem_options (cached ''T'') =
     (Inl (Error ''Request failed: Unexpected end of JSON input''),
      \<lparr>bearerToken = JStr ''T'', sent = [folders_request ''Bearer T'']\<rparr>)"
  by (simp add: aem_makeAEMRequest_def aem_makeRequest_def fetch_def try_catch_def)

text \<open>
  Claim C7, amended. A non-2xx status is final and never retried. In the Workfront adapter
  the error carries the status and the body text, both for a first response other than 401
  and for any non-2xx response to the retried request. In the AEM adapter every non-2xx
  response is a final error after the single request; the error carries the status and
  \<^verbatim>\<open>JSON.stringify\<close> of the body when the body is read without error (it is not declared
  JSON, or it parses), and is \<^verbatim>\<open>Request failed: \<close> with the parser's message when a body
  declared JSON does not parse.
\<close>

theorem other_statuses_are_final:
  "(wf_ensureValidToken cfg net st = (Inr t, st1)
      \<and> wf_requestOptions (baseUrl cfg @ endpoint) (bearerToken st1) options = Inr req
      \<and> net (length (sent st1)) = Resolved r1 \<and> \<not> ok r1 \<and> status r1 \<noteq> 401
    \<longrightarrow> wf_makeWorkfrontRequest cfg net endpoint options st =
          (Inl (Error (''Workfront request error: Workfront API error: ''
                        @ string_of_nat (status r1) @ '' - '' @ body_text r1)),
           st1\<lparr>sent := sent st1 @ [req]\<rparr>))
   \<and> (wf_ensureValidToken cfg net st = (Inr t, st1)
      \<and> wf_requestOptions (baseUrl cfg @ endpoint) (bearerToken st1) options = Inr req
      \<and> net (length (sent st1)) = Resolved r1 \<and> status r1 = 401
      \<and> wf_getBearerToken cfg net (st1\<lparr>sent := sent st1 @ [req]\<rparr>) = (Inr t2, st2)
      \<and> js_String t2 = Inr b
      \<and> net (length (sent st1) + 2) = Resolved r2 \<and> \<not> ok r2
    \<longrightarrow> wf_makeWorkfrontRequest cfg net endpoint options st =
          (Inl (Error (''Workfront request error: Workfront API error after token renewal: ''
                        @ string_of_nat (status r2) @ '' - '' @ body_text r2)),
           st1\<lparr>sent := sent st1 @ [req, wf_token_request cfg,
                                    set_header ''Authorization'' (''Bearer '' @ b) req],
               bearerToken := t2\<rparr>))
   \<and> (aem_ensureValidToken cfg net st = (Inr t, sa)
      \<and> aem_requestOptions cfg (bearerToken sa) aopts = Inr ro
      \<and> net (length (sent sa)) = Resolved r1 \<and> \<not> ok r1
    \<longrightarrow> isl (fst (aem_makeAEMRequest cfg net u aopts st))
        \<and> snd (aem_makeAEMRequest cfg net u aopts st) = sa\<lparr>sent := sent sa @ [aem_fetch_request u ro]\<rparr>)
   \<and> (aem_ensureValidToken cfg net st = (Inr t, sa)
      \<and> aem_requestOptions cfg (bearerToken sa) aopts = Inr ro
      \<and> net (length (sent sa)) = Resolved r1 \<and> \<not> ok r1 \<and> \<not> declared_json r1
    \<longrightarrow> fst (aem_makeAEMRequest cfg net u aopts st) =
          Inl (Error (''AEM API error: '' @ string_of_nat (status r1) @ '' - ''
                       @ JSON_stringify (JStr (body_text r1)))))
   \<and> (aem_ensureValidToken cfg net st = (Inr t, sa)
      \<and> aem_requestOptions cfg (bearerToken sa) aopts = Inr ro
      \<and> net (length (sent sa)) = Resolved r1 \<and> \<not> ok r1 \<and> declared_json r1 \<and> parsed r1 = Inr j
    \<longrightarrow> fst (aem_makeAEMRequest cfg net u aopts st) =
          Inl (Error (''AEM API error: '' @ string_of_nat (status r1) @ '' - '' @ JSON_stringify j)))
   \<and> (aem_ensureValidToken cfg net st = (Inr t, sa)
      \<and> aem_requestOptions cfg (bearerToken sa) aopts = Inr ro
      \<and> net (length (sent sa)) = Resolved r1 \<and> \<not> ok r1 \<and> declared_json r1 \<and> parsed r1 = Inl m
    \<longrightarrow> fst (aem_makeAEMRequest cfg net u aopts st) = Inl (Error (''Request failed: '' @ m)))"
proof (intro conjI impI)
  assume a: "wf_ensureValidToken cfg net st = (Inr t, st1)
      \<and> wf_requestOptions (baseUrl cfg @ endpoint) (bearerToken st1) options = Inr req
      \<and> net (length (sent st1)) = Resolved r1 \<and> \<not> ok r1 \<and> status r1 \<noteq> 401"
  then have "wf_makeWorkfrontRequest_try cfg net req st1 =
      (Inl (Error (''Workfront API error: '' @ string_of_nat (status r1) @ '' - '' @ body_text r1)),
       st1\<lparr>sent := sent st1 @ [req]\<rparr>)"
    using wf_try_not_401 [of net st1 r1 cfg req] by simp
  with a show "wf_makeWorkfrontRequest cfg net endpoint options st =
          (Inl (Error (''Workfront request error: Workfront API error: ''
                        @ string_of_nat (status r1) @ '' - '' @ body_text r1)),
           st1\<lparr>sent := sent st1 @ [req]\<rparr>)"
    by (simp add: wf_makeWorkfrontRequest_def try_catch_def)
next
  assume a: "wf_ensureValidToken cfg net st = (Inr t, st1)
      \<and> wf_requestOptions (baseUrl cfg @ endpoint) (bearerToken st1) options = Inr req
      \<and> net (length (sent st1)) = Resolved r1 \<and> status r1 = 401
      \<and> wf_getBearerToken cfg net (st1\<lparr>sent := sent st1 @ [req]\<rparr>) = (Inr t2, st2)
      \<and> js_String t2 = Inr b
      \<and> net (length (sent st1) + 2) = Resolved r2 \<and> \<not> ok r2"
  then have f: "net (length (sent st1)) = Resolved r1" "status r1 = 401"
    and g: "wf_getBearerToken cfg net (st1\<lparr>sent := sent st1 @ [req]\<rparr>) = (Inr t2, st2)"
    and h: "js_String t2 = Inr b"
    and r: "net (length (sent st1) + 2) = Resolved r2" "\<not> ok r2"
    by blast+
  have "wf_makeWorkfrontRequest_try cfg net req st1 =
      (Inl (Error (''Workfront API error after token renewal: '' @ string_of_nat (status r2)
                    @ '' - '' @ body_text r2)),
       st1\<lparr>sent := sent st1 @ [req, wf_token_request cfg,
                                set_header ''Authorization'' (''Bearer '' @ b) req],
           bearerToken := t2\<rparr>)"
    unfolding wf_try_401_renewed [OF f g h] using r by simp
  with a show "wf_makeWorkfrontRequest cfg net endpoint options st =
          (Inl (Error (''Workfront request error: Workfront API error after token renewal: ''
                        @ string_of_nat (status r2) @ '' - '' @ body_text r2)),
           st1\<lparr>sent := sent st1 @ [req, wf_token_request cfg,
                                    set_header ''Authorization'' (''Bearer '' @ b) req],
               bearerToken := t2\<rparr>)"
    by (simp add: wf_makeWorkfrontRequest_def try_catch_def)
next
  assume a: "aem_ensureValidToken cfg net st = (Inr t, sa)
      \<and> aem_requestOptions cfg (bearerToken sa) aopts = Inr ro
      \<and> net (length (sent sa)) = Resolved r1 \<and> \<not> ok r1"
  with aem_makeAEMRequest_not_ok [of cfg net st t sa aopts ro r1 u]
  show "isl (fst (aem_makeAEMRequest cfg net u aopts st))"
    and "snd (aem_makeAEMRequest cfg net u aopts st) = sa\<lparr>sent := sent sa @ [aem_fetch_request u ro]\<rparr>"
    by simp_all
next
  assume a: "aem_ensureValidToken cfg net st = (Inr t, sa)
      \<and> aem_requestOptions cfg (bearerToken sa) aopts = Inr ro
      \<and> net (length (sent sa)) = Resolved r1 \<and> \<not> ok r1 \<and> \<not> declared_json r1"
  then show "fst (aem_makeAEMRequest cfg net u aopts st) =
          Inl (Error (''AEM API error: '' @ string_of_nat (status r1) @ '' - ''
                       @ JSON_stringify (JStr (body_text r1))))"
    using aem_makeRequest_text [of net sa r1 u ro]
    by (simp add: aem_makeAEMRequest_def)
next
  assume a: "aem_ensureValidToken cfg net st = (Inr t, sa)
      \<and> aem_requestOptions cfg (bearerToken sa) aopts = Inr ro
      \<and> net (length (sent sa)) = Resolved r1 \<and> \<not> ok r1 \<and> declared_json r1 \<and> parsed r1 = Inr j"
  then show "fst (aem_makeAEMRequest cfg net u aopts st) =
          Inl (Error (''AEM API error: '' @ string_of_nat (status r1) @ '' - '' @ JSON_stringify j))"
    using aem_makeRequest_json [of net sa r1 j u ro]
    by (simp add: aem_makeAEMRequest_def)
next
  assume a: "aem_ensureValidToken cfg net st = (Inr t, sa)
      \<and> aem_requestOptions cfg (bearerToken sa) aopts = Inr ro
      \<and> net (length (sent sa)) = Resolved r1 \<and> \<not> ok r1 \<and> declared_json r1 \<and> parsed r1 = Inl m"
  then show "fst (aem_makeAEMRequest cfg net u aopts st) = Inl (Error (''Request failed: '' @ m))"
    using aem_makeRequest_unparsable [of net sa r1 m u ro]
    by (simp add: aem_makeAEMRequest_def)
qed

theorem other_statuses_are_final_witness:
  "wf_makeWorkfrontRequest sample_config forbidden_script projects_endpoint no_options (cached ''T'') =
     (Inl (Error ''Workfront request error: Workfront API error: 403 - forbidden''),
      \<lparr>bearerToken = JStr ''T'', sent = [projects_request ''Bearer T'']\<rparr>)
   \<and> wf_makeWorkfrontRequest sample_config retry_not_found_script projects_endpoint no_options (cached ''OLD'') =
     (Inl (Error ''Workfront request error: Workfront API error after token renewal: 404 - no such project''),
      \<lparr>bearerToken = JStr ''NEW'',
       sent = [projects_request ''Bearer OLD'', wf_token_request sample_config,
               projects_request ''Bearer NEW'']\<rparr>)
   \<and> aem_makeAEMRequest sample_config forbidden_script folders_url no_aem_options (cached ''T'') =
     (Inl (Error (''AEM API error: 403 - '' @ JSON_stringify (JStr ''forbidden''))),
      \<lparr>bearerToken = JStr ''T'', sent = [folders_request ''Bearer T'']\<rparr>)
   \<and> aem_makeAEMRequest sample_config (script [Resolved (json_response 403 error_body)]) folders_url
       no_aem_options (cached ''T'') =
     (Inl (Error (''AEM API error: 403 - '' @ JSON_stringify error_body)),
      \<lparr>bearerToken = JStr ''T'', sent = [folders_request ''Bearer T'']\<rparr>)
   \<and> aem_makeAEMRequest sample_config (script [Resolved (empty_json_response 500)]) folders_url
       no_aem_options (cached ''T'') =
     (Inl (Error ''Request failed: Unexpected end of JSON input''),
      \<lparr>bearerToken = JStr ''T'', sent = [folders_request ''Bearer T'']\<rparr>)"
proof -
  let ?ro = "\<lparr> opt_method = Some ''GET'',
           opt_headers = Some [(''Authorization'', ''Bearer T''), (''x-api-key'', ''client-id''),
                               (''Content-Type'', ''application/json'')],
           opt_body = None \<rparr>"
  note t = other_statuses_are_final [where cfg = sample_config and endpoint = projects_endpoint
      and options = no_options and u = folders_url and aopts = no_aem_options and ro = ?ro]
  have 1: "wf_makeWorkfrontRequest sample_config forbidden_script projects_endpoint no_options (cached ''T'') =
     (Inl (Error (''Workfront request error: Workfront API error: '' @ string_of_nat 403 @ '' - '' @ ''forbidden'')),
      cached ''T''\<lparr>sent := sent (cached ''T'') @ [projects_request ''Bearer T'']\<rparr>)"
    using t [where net = forbidden_script and st = "cached ''T''" and ?st1.0 = "cached ''T''"
        and req = "projects_request ''Bearer T''"
        and ?r1.0 = "text_response 403 ''forbidden''" and t = "JStr ''T''", THEN conjunct1]
    by (simp add: forbidden_script_def)
  have 2: "wf_makeWorkfrontRequest sample_config retry_not_found_script projects_endpoint no_options (cached ''OLD'') =
     (Inl (Error (''Workfront request error: Workfront API error after token renewal: ''
                   @ string_of_nat 404 @ '' - '' @ ''no such project'')),
      cached ''OLD''\<lparr>sent := sent (cached ''OLD'') @ [projects_request ''Bearer OLD'', wf_token_request sample_config,
          set_header ''Authorization'' (''Bearer '' @ ''NEW'') (projects_request ''Bearer OLD'')],
                bearerToken := JStr ''NEW''\<rparr>)"
    using t [where net = retry_not_found_script and st = "cached ''OLD''"
        and ?st1.0 = "cached ''OLD''" and req = "projects_request ''Bearer OLD''"
        and ?r1.0 = "text_response 401 ''token expired''" and t = "JStr ''OLD''" and ?t2.0 = "JStr ''NEW''"
        and b = "''NEW''" and ?r2.0 = "text_response 404 ''no such project''",
        THEN conjunct2, THEN conjunct1] renewal_samples(5)
    by (simp add: retry_not_found_script_def numeral_2_eq_2)
  have 3: "isl (fst (aem_makeAEMRequest sample_config forbidden_script folders_url no_aem_options (cached ''T'')))
      \<and> snd (aem_makeAEMRequest sample_config forbidden_script folders_url no_aem_options (cached ''T'')) =
          cached ''T''\<lparr>sent := sent (cached ''T'') @ [aem_fetch_request folders_url ?ro]\<rparr>"
    using t [where net = forbidden_script and st = "cached ''T''" and sa = "cached ''T''"
        and ?r1.0 = "text_response 403 ''forbidden''" and t = "JStr ''T''",
        THEN conjunct2, THEN conjunct2, THEN conjunct1]
    by (simp add: forbidden_script_def)
  have 4: "fst (aem_makeAEMRequest sample_config forbidden_script folders_url no_aem_options (cached ''T'')) =
      Inl (Error (''AEM API error: '' @ string_of_nat 403 @ '' - '' @ JSON_stringify (JStr ''forbidden'')))"
    using t [where net = forbidden_script and st = "cached ''T''" and sa = "cached ''T''"
        and ?r1.0 = "text_response 403 ''forbidden''" and t = "JStr ''T''",
        THEN conjunct2, THEN conjunct2, THEN conjunct2, THEN conjunct1]
    by (simp add: forbidden_script_def)
  have 5: "fst (aem_makeAEMRequest sample_config (script [Resolved (json_response 403 error_body)]) folders_url
       no_aem_options (cached ''T'')) =
      Inl (Error (''AEM API error: '' @ string_of_nat 403 @ '' - '' @ JSON_stringify error_body))"
    using t [where net = "script [Resolved (json_response 403 error_body)]"
        and st = "cached ''T''" and sa = "cached ''T''" and ?r1.0 = "json_response 403 error_body"
        and t = "JStr ''T''" and j = error_body,
        THEN conjunct2, THEN conjunct2, THEN conjunct2, THEN conjunct2, THEN conjunct1]
    by simp
  have 6: "snd (aem_makeAEMRequest sample_config (script [Resolved (json_response 403 error_body)]) folders_url
       no_aem_options (cached ''T'')) =
          cached ''T''\<lparr>sent := sent (cached ''T'') @ [aem_fetch_request folders_url ?ro]\<rparr>"
    using t [where net = "script [Resolved (json_response 403 error_body)]"
        and st = "cached ''T''" and sa = "cached ''T''" and ?r1.0 = "json_response 403 error_body"
        and t = "JStr ''T''",
        THEN conjunct2, THEN conjunct2, THEN conjunct1]
    by simp
  have 7: "fst (aem_makeAEMRequest sample_config (script [Resolved (empty_json_response 500)]) folders_url
       no_aem_options (cached ''T'')) = Inl (Error (''Request failed: '' @ ''Unexpected end of JSON input''))"
    using t [where net = "script [Resolved (empty_json_response 500)]"
        and st = "cached ''T''" and sa = "cached ''T''" and ?r1.0 = "empty_json_response 500"
        and t = "JStr ''T''" and m = "''Unexpected end of JSON input''",
        THEN conjunct2, THEN conjunct2, THEN conjunct2, THEN conjunct2, THEN conjunct2]
    by simp
  have 8: "snd (aem_makeAEMRequest sample_config (script [Resolved (empty_json_response 500)]) folders_url
       no_aem_options (cached ''T'')) =
          cached ''T''\<lparr>sent := sent (cached ''T'') @ [aem_fetch_request folders_url ?ro]\<rparr>"
    using t [where net = "script [Resolved (empty_json_response 500)]"
        and st = "cached ''T''" and sa = "cached ''T''" and ?r1.0 = "empty_json_response 500"
        and t = "JStr ''T''",
        THEN conjunct2, THEN conjunct2, THEN conjunct1]
    by simp
  from 1 2 3 4 5 6 7 8 show ?thesis
    by (simp add: string_of_nat_403 string_of_nat_404 prod_eq_iff)
qed

text \<open>
  Claim C8 does not hold of \<^verbatim>\<open>makeWorkfrontRequest\<close> when the caller passes \<^verbatim>\<open>headers\<close>, as
  \<^verbatim>\<open>createTask\<close>, \<^verbatim>\<open>createProject\<close> and \<^verbatim>\<open>createTaskPredecessor\<close> do: the \<^verbatim>\<open>...options\<close> that
  ends the object literal replaces the merged \<^verbatim>\<open>headers\<close>, \<^verbatim>\<open>Authorization\<close> included, by the
  caller's. With the token \<^verbatim>\<open>T\<close> cached, the first request of such a call goes out with the
  content type as its only header; a call without \<^verbatim>\<open>headers\<close> carries \<^verbatim>\<open>Bearer T\<close>.
\<close>

theorem form_request_first_sent_without_authorization:
  "wf_requestOptions (baseUrl sample_config @ ''/task'') (JStr ''T'')
       (form_options ''POST'' [(''name'', ''Sample Task'')]) =
     Inr \<lparr> url = baseUrl sample_config @ ''/task'', http_method = ''POST'',
           headers = [(''Content-Type'', ''application/x-www-form-urlencoded'')],
           req_body = Some (URLSearchParams [(''name'', ''Sample Task'')]) \<rparr>
   \<and> sent (snd (wf_makeWorkfrontRequest sample_config
        (script [Resolved (json_response 200 (JObj [(''data'', JObj [(''ID'', JStr ''t1'')])]))])
        ''/task'' (form_options ''POST'' [(''name'', ''Sample Task'')]) (cached ''T''))) =
     [\<lparr> url = baseUrl sample_config @ ''/task'', http_method = ''POST'',
        headers = [(''Content-Type'', ''application/x-www-form-urlencoded'')],
        req_body = Some (URLSearchParams [(''name'', ''Sample Task'')]) \<rparr>]
   \<and> map_of (headers (projr (wf_requestOptions (baseUrl sample_config @ ''/task'') (JStr ''T'')
        (form_options ''POST'' [(''name'', ''Sample Task'')])))) ''Authorization'' = None
   \<and> map_of (headers (projr (wf_requestOptions (baseUrl sample_config @ ''/task'') (JStr ''T'') no_options)))
        ''Authorization'' = Some ''Bearer T''"
  by (simp add: wf_requestOptions_def form_options_def no_options_def spread_def
      wf_makeWorkfrontRequest_def wf_makeWorkfrontRequest_try_def try_catch_def fetch_def)

section \<open>Startup\<close>

lemma serve_length: "serve h calls st = (rs, st') \<Longrightarrow> length rs = length calls"
  by (induction calls arbitrary: st rs st') (auto split: prod.splits)

text \<open>
  Claim C6. When the client id or the client secret is absent (unset or empty) at process
  start, the process exits with code 1 before it serves any call and before it sends any
  request, in both adapters. With the required variables present the process serves every
  call, whether or not the token URL and the scopes are set; where they are absent the
  configuration holds their defaults.
\<close>

theorem missing_credentials_exit_at_startup:
  "(env_missing e ''ADOBE_IMS_CLIENT_ID'' \<or> env_missing e ''ADOBE_IMS_CLIENT_SECRET'' \<longrightarrow>
      wf_main e wfT net calls = \<lparr>exit_code = Some 1, responses = [], final = initial_state\<rparr>
    \<and> aem_main e aemT net calls = \<lparr>exit_code = Some 1, responses = [], final = initial_state\<rparr>)
   \<and> (\<not> env_missing e ''ADOBE_IMS_CLIENT_ID'' \<and> \<not> env_missing e ''ADOBE_IMS_CLIENT_SECRET'' \<longrightarrow>
      (\<not> env_missing e ''WORKFRONT_BASE_URL'' \<longrightarrow>
         exit_code (wf_main e wfT net calls) = None
       \<and> length (responses (wf_main e wfT net calls)) = length calls)
    \<and> (\<not> env_missing e ''AEM_BASE_URL'' \<longrightarrow>
         exit_code (aem_main e aemT net calls) = None
       \<and> length (responses (aem_main e aemT net calls)) = length calls))
   \<and> (env_missing e ''ADOBE_IMS_TOKEN_URL'' \<longrightarrow>
        tokenUrl (ims (WORKFRONT_CONFIG e)) = ''https://ims-na1.adobelogin.com/ims/token/v3''
      \<and> tokenUrl (ims (AEM_CONFIG e)) = ''https://ims-na1.adobelogin.com/ims/token/v3'')
   \<and> (env_missing e ''ADOBE_IMS_SCOPES'' \<longrightarrow>
        scope (ims (WORKFRONT_CONFIG e)) =
          ''openid,AdobeID,session,additional_info.projectedProductContext,profile,read_organizations,additional_info.roles''
      \<and> scope (ims (AEM_CONFIG e)) =
          ''openid,AdobeID,aem.assets.author,aem.folders,aem.fragments.management'')"
proof -
  have exit_wf: "env_missing e ''ADOBE_IMS_CLIENT_ID'' \<or> env_missing e ''ADOBE_IMS_CLIENT_SECRET'' \<Longrightarrow>
      wf_load e = Exit 1 \<and> aem_load e = Exit 1"
    by (auto simp: wf_load_def aem_load_def wf_missingEnvVars_def aem_missingEnvVars_def
        wf_requiredEnvVars_def aem_requiredEnvVars_def)
  have run_wf: "\<not> env_missing e ''ADOBE_IMS_CLIENT_ID'' \<Longrightarrow> \<not> env_missing e ''ADOBE_IMS_CLIENT_SECRET'' \<Longrightarrow>
      \<not> env_missing e ''WORKFRONT_BASE_URL'' \<Longrightarrow> wf_load e = Loaded (WORKFRONT_CONFIG e)"
    by (simp add: wf_load_def wf_missingEnvVars_def wf_requiredEnvVars_def)
  have run_aem: "\<not> env_missing e ''ADOBE_IMS_CLIENT_ID'' \<Longrightarrow> \<not> env_missing e ''ADOBE_IMS_CLIENT_SECRET'' \<Longrightarrow>
      \<not> env_missing e ''AEM_BASE_URL'' \<Longrightarrow> aem_load e = Loaded (AEM_CONFIG e)"
    by (simp add: aem_load_def aem_missingEnvVars_def aem_requiredEnvVars_def)
  have dflt: "\<And>v d. env_missing e v \<Longrightarrow> env_or e v d = d"
    by (auto simp: env_missing_def env_or_def split: option.splits)
  show ?thesis
    using exit_wf run_wf run_aem
    by (auto simp: wf_main_def aem_main_def WORKFRONT_CONFIG_def AEM_CONFIG_def dflt
        split: prod.splits dest: serve_length)
qed

theorem missing_credentials_exit_at_startup_witness:
  "wf_main (sample_env(''ADOBE_IMS_CLIENT_SECRET'' := None)) sample_wf_tools
       (script [Resolved (token_response ''T'')]) [(''create_task_predecessor'', None)]
     = \<lparr>exit_code = Some 1, responses = [], final = initial_state\<rparr>
   \<and> aem_main (sample_env(''ADOBE_IMS_CLIENT_ID'' \<mapsto> [])) sample_aem_tools
       (script [Resolved (token_response ''T'')]) [(''list_folders'', None)]
     = \<lparr>exit_code = Some 1, responses = [], final = initial_state\<rparr>
   \<and> exit_code (wf_main sample_env sample_wf_tools (script []) [(''create_task_predecessor'', None)]) = None
   \<and> length (responses (wf_main sample_env sample_wf_tools (script []) [(''create_task_predecessor'', None)])) = 1
   \<and> exit_code (aem_main sample_env sample_aem_tools (script []) [(''list_folders'', None)]) = None
   \<and> tokenUrl (ims (WORKFRONT_CONFIG sample_env)) = ''https://ims-na1.adobelogin.com/ims/token/v3''
   \<and> scope (ims (AEM_CONFIG sample_env)) =
        ''openid,AdobeID,aem.assets.author,aem.folders,aem.fragments.management''"
  using missing_credentials_exit_at_startup [of "sample_env(''ADOBE_IMS_CLIENT_SECRET'' := None)"
      sample_wf_tools "script [Resolved (token_response ''T'')]" "[(''create_task_predecessor'', None)]"
      sample_aem_tools]
    missing_credentials_exit_at_startup [of "sample_env(''ADOBE_IMS_CLIENT_ID'' \<mapsto> [])"
      sample_wf_tools "script [Resolved (token_response ''T'')]" "[(''list_folders'', None)]"
      sample_aem_tools]
    missing_credentials_exit_at_startup [of sample_env
      sample_wf_tools "script []" "[(''create_task_predecessor'', None)]" sample_aem_tools]
    missing_credentials_exit_at_startup [of sample_env
      sample_wf_tools "script []" "[(''list_folders'', None)]" sample_aem_tools]
  by (simp add: env_missing_def sample_env_def)

section \<open>Errors at the boundary of a tool invocation\<close>

lemma serve_all_results:
  "(\<And>name args s. \<not> isl (fst (h name args s))) \<Longrightarrow> serve h calls st = (rs, st') \<Longrightarrow>
     r \<in> set rs \<Longrightarrow> \<not> isl r"
proof (induction calls arbitrary: st rs st')
  case Nil
  then show ?case by simp
next
  case (Cons c calls)
  obtain name args where c: "c = (name, args)" by (cases c)
  obtain r1 st1 where h: "h name args st = (r1, st1)" by (cases "h name args st")
  obtain rs2 st2 where s: "serve h calls st1 = (rs2, st2)" by (cases "serve h calls st1")
  from Cons.prems(2) c h s have rs: "rs = r1 # rs2" by simp
  have "\<not> isl r1" using Cons.prems(1) [of name args st] h by simp
  moreover have "r \<in> set rs2 \<Longrightarrow> \<not> isl r" using Cons.IH [OF Cons.prems(1) s] by simp
  ultimately show ?case using Cons.prems(3) rs by auto
qed

lemma wf_callTool_not_isl: "\<not> isl (fst (wf_callTool T name args st))"
  by (cases "wf_dispatch T name args st") (auto simp: wf_callTool_def try_catch_def split: sum.splits)

lemma aem_callTool_not_isl: "\<not> isl (fst (aem_callTool T name args st))"
  by (cases "aem_dispatch T name args st") (auto simp: aem_callTool_def try_catch_def split: sum.splits)

lemma wf_createTaskPredecessor_request_error:
  assumes "get_prop ''taskID'' (Some a) = Inr tid" and "\<not> js_not tid"
    and "get_prop ''predecessorExpression'' (Some a) = Inr p" and "\<not> js_not p"
    and "js_String_val tid = Inr ts" and "js_String_val p = Inr ps"
    and "wf_makeWorkfrontRequest cfg net (''/task/'' @ ts)
           (form_options ''PUT'' [(''predecessorExpression'', ps)]) st = (Inl e, s)"
  shows "wf_createTaskPredecessor cfg net (Some a) st =
           (Inl (Error (''Task predecessor creation error: '' @ message e)), s)"
  using assms
  by (simp add: wf_createTaskPredecessor_def wf_createTaskPredecessor_try_def try_catch_def
      form_options_def)

text \<open>
  Claim C9. Whatever a tool method throws, the handler returns a result whose one content
  item is the text \<^verbatim>\<open>Error: \<close> followed by the error's message, marked \<^verbatim>\<open>isError: true\<close>; what
  the method returns is passed on. This holds for every body of the tool methods. For
  \<^verbatim>\<open>createTaskPredecessor\<close>: a missing \<^verbatim>\<open>taskID\<close> (a validation error) and every error of its
  authenticated request (a failed token acquisition, a downstream API error) reach the
  host as such a result, the request's error under the prefix
  \<^verbatim>\<open>Task predecessor creation error: \<close>. So every response of a run is a result, none an
  escaped error, every call is answered, and the only exit is the startup check of the
  required variables.
\<close>

theorem tool_errors_recovered_at_boundary:
  "(wf_dispatch wfT name args st = (Inl error, s) \<longrightarrow>
      wf_callTool wfT name args st =
        (Inr \<lparr> content = [\<lparr>item_type = ''text'', item_text = ''Error: '' @ message error\<rparr>],
              isError = Some True \<rparr>, s))
   \<and> (wf_dispatch wfT name args st = (Inr res, s) \<longrightarrow> wf_callTool wfT name args st = (Inr res, s))
   \<and> (aem_dispatch aemT name args st = (Inl error, s) \<longrightarrow>
      aem_callTool aemT name args st =
        (Inr \<lparr> content = [\<lparr>item_type = ''text'', item_text = ''Error: '' @ message error\<rparr>],
              isError = Some True \<rparr>, s))
   \<and> (aem_dispatch aemT name args st = (Inr res, s) \<longrightarrow> aem_callTool aemT name args st = (Inr res, s))
   \<and> (createTaskPredecessor wfT = wf_createTaskPredecessor cfg net
      \<and> get_prop ''taskID'' (Some a) = Inr tid \<and> js_not tid
    \<longrightarrow> wf_callTool wfT ''create_task_predecessor'' (Some a) st =
          (Inr \<lparr> content = [\<lparr>item_type = ''text'',
                              item_text = ''Error: taskID is required to create task predecessors''\<rparr>],
                isError = Some True \<rparr>, st))
   \<and> (createTaskPredecessor wfT = wf_createTaskPredecessor cfg net
      \<and> get_prop ''taskID'' (Some a) = Inr tid \<and> \<not> js_not tid
      \<and> get_prop ''predecessorExpression'' (Some a) = Inr p \<and> \<not> js_not p
      \<and> js_String_val tid = Inr ts \<and> js_String_val p = Inr ps
      \<and> wf_makeWorkfrontRequest cfg net (''/task/'' @ ts)
           (form_options ''PUT'' [(''predecessorExpression'', ps)]) st = (Inl e, s)
    \<longrightarrow> wf_callTool wfT ''create_task_predecessor'' (Some a) st =
          (Inr \<lparr> content = [\<lparr>item_type = ''text'',
                              item_text = ''Error: Task predecessor creation error: '' @ message e\<rparr>],
                isError = Some True \<rparr>, s))
   \<and> (\<forall>r \<in> set (responses (wf_main env wfTs net calls)). \<not> isl r)
   \<and> (\<forall>r \<in> set (responses (aem_main env aemTs net calls)). \<not> isl r)
   \<and> (exit_code (wf_main env wfTs net calls) \<noteq> None \<longleftrightarrow> wf_missingEnvVars env \<noteq> [])
   \<and> (exit_code (aem_main env aemTs net calls) \<noteq> None \<longleftrightarrow> aem_missingEnvVars env \<noteq> [])
   \<and> (exit_code (wf_main env wfTs net calls) = None \<longrightarrow>
        length (responses (wf_main env wfTs net calls)) = length calls)
   \<and> (exit_code (aem_main env aemTs net calls) = None \<longrightarrow>
        length (responses (aem_main env aemTs net calls)) = length calls)"
proof -
  have wf: "serve (wf_callTool T) calls st0 = (rs, st1) \<Longrightarrow> r \<in> set rs \<Longrightarrow> \<not> isl r" for r T st0 rs st1
    using serve_all_results [of "wf_callTool T" calls st0 rs st1 r] wf_callTool_not_isl by blast
  have aem: "serve (aem_callTool T) calls st0 = (rs, st1) \<Longrightarrow> r \<in> set rs \<Longrightarrow> \<not> isl r" for r T st0 rs st1
    using serve_all_results [of "aem_callTool T" calls st0 rs st1 r] aem_callTool_not_isl by blast
  have 1: "\<forall>r \<in> set (responses (wf_main env wfTs net calls)). \<not> isl r"
    using wf by (auto simp: wf_main_def wf_load_def split: prod.splits)
  have 2: "\<forall>r \<in> set (responses (aem_main env aemTs net calls)). \<not> isl r"
    using aem by (auto simp: aem_main_def aem_load_def split: prod.splits)
  have 3: "exit_code (wf_main env wfTs net calls) \<noteq> None \<longleftrightarrow> wf_missingEnvVars env \<noteq> []"
    by (auto simp: wf_main_def wf_load_def split: prod.splits)
  have 4: "exit_code (aem_main env aemTs net calls) \<noteq> None \<longleftrightarrow> aem_missingEnvVars env \<noteq> []"
    by (auto simp: aem_main_def aem_load_def split: prod.splits)
  have 5: "exit_code (wf_main env wfTs net calls) = None \<longrightarrow>
        length (responses (wf_main env wfTs net calls)) = length calls"
    by (auto simp: wf_main_def wf_load_def split: prod.splits dest: serve_length)
  have 6: "exit_code (aem_main env aemTs net calls) = None \<longrightarrow>
        length (responses (aem_main env aemTs net calls)) = length calls"
    by (auto simp: aem_main_def aem_load_def split: prod.splits dest: serve_length)
  have 7: "createTaskPredecessor wfT = wf_createTaskPredecessor cfg net
      \<and> get_prop ''taskID'' (Some a) = Inr tid \<and> js_not tid
    \<longrightarrow> wf_callTool wfT ''create_task_predecessor'' (Some a) st =
          (Inr \<lparr> content = [\<lparr>item_type = ''text'',
                              item_text = ''Error: taskID is required to create task predecessors''\<rparr>],
                isError = Some True \<rparr>, st)"
    by (simp add: wf_callTool_def wf_dispatch_def wf_createTaskPredecessor_def try_catch_def
        error_result_def)
  have 8: "createTaskPredecessor wfT = wf_createTaskPredecessor cfg net
      \<and> get_prop ''taskID'' (Some a) = Inr tid \<and> \<not> js_not tid
      \<and> get_prop ''predecessorExpression'' (Some a) = Inr p \<and> \<not> js_not p
      \<and> js_String_val tid = Inr ts \<and> js_String_val p = Inr ps
      \<and> wf_makeWorkfrontRequest cfg net (''/task/'' @ ts)
           (form_options ''PUT'' [(''predecessorExpression'', ps)]) st = (Inl e, s)
    \<longrightarrow> wf_callTool wfT ''create_task_predecessor'' (Some a) st =
          (Inr \<lparr> content = [\<lparr>item_type = ''text'',
                              item_text = ''Error: Task predecessor creation error: '' @ message e\<rparr>],
                isError = Some True \<rparr>, s)"
    using wf_createTaskPredecessor_request_error [of a tid p ts ps cfg net st e s]
    by (simp add: wf_callTool_def wf_dispatch_def try_catch_def error_result_def)
  show ?thesis using 1 2 3 4 5 6 7 8
    by (simp add: wf_callTool_def aem_callTool_def try_catch_def error_result_def)
qed

theorem tool_errors_recovered_at_boundary_witness:
  "wf_callTool (sample_wf_tools sample_config (script [])) ''create_task_predecessor''
       (Some (JObj [])) initial_state
     = (Inr \<lparr> content = [\<lparr>item_type = ''text'',
                           item_text = ''Error: taskID is required to create task predecessors''\<rparr>],
             isError = Some True \<rparr>, initial_state)
   \<and> fst (wf_callTool (sample_wf_tools sample_config (script [Resolved (text_response 500 ''boom'')]))
       ''create_task_predecessor'' (Some predecessor_args) initial_state)
     = Inr \<lparr> content = [\<lparr>item_type = ''text'',
                          item_text = ''Error: Task predecessor creation error: Token retrieval error: Adobe IMS authentication error: 500 - boom''\<rparr>],
            isError = Some True \<rparr>
   \<and> fst (wf_callTool (sample_wf_tools sample_config (script [Resolved (text_response 404 ''not found'')]))
       ''create_task_predecessor'' (Some predecessor_args) (cached ''T''))
     = Inr \<lparr> content = [\<lparr>item_type = ''text'',
                          item_text = ''Error: Task predecessor creation error: Workfront request error: Workfront API error: 404 - not found''\<rparr>],
            isError = Some True \<rparr>
   \<and> aem_callTool (sample_aem_tools sample_config (script [])) ''delete_everything'' None initial_state
     = (Inr \<lparr> content = [\<lparr>item_type = ''text'', item_text = ''Error: Unknown tool: delete_everything''\<rparr>],
             isError = Some True \<rparr>, initial_state)
   \<and> wf_main sample_env sample_wf_tools (script []) [(''create_task_predecessor'', Some (JObj []))]
     = \<lparr> exit_code = None,
         responses = [Inr \<lparr> content = [\<lparr>item_type = ''text'',
                              item_text = ''Error: taskID is required to create task predecessors''\<rparr>],
                            isError = Some True \<rparr>],
         final = initial_state \<rparr>
   \<and> responses (aem_main sample_env sample_aem_tools (script []) [(''delete_everything'', None)])
     = [Inr \<lparr> content = [\<lparr>item_type = ''text'', item_text = ''Error: Unknown tool: delete_everything''\<rparr>],
              isError = Some True \<rparr>]"
proof -
  let ?T1 = "sample_wf_tools sample_config (script [])"
  let ?n2 = "script [Resolved (text_response 500 ''boom'')]"
  let ?n3 = "script [Resolved (text_response 404 ''not found'')]"
  let ?A = "sample_aem_tools sample_config (script [])"
  let ?o = "form_options ''PUT'' [(''predecessorExpression'', ''2fs+3d'')]"
  note t = tool_errors_recovered_at_boundary
  have p: "get_prop ''taskID'' (Some predecessor_args) = Inr (Some (JStr ''5f1a''))"
    "get_prop ''predecessorExpression'' (Some predecessor_args) = Inr (Some (JStr ''2fs+3d''))"
    "\<not> js_not (Some (JStr ''5f1a''))" "\<not> js_not (Some (JStr ''2fs+3d''))"
    "js_String_val (Some (JStr ''5f1a'')) = Inr ''5f1a''"
    "js_String_val (Some (JStr ''2fs+3d'')) = Inr ''2fs+3d''"
    by (simp_all add: predecessor_args_def js_not_def js_String_val_def)
  have r2: "wf_makeWorkfrontRequest sample_config ?n2 (''/task/'' @ ''5f1a'') ?o initial_state =
      (Inl (Error ''Token retrieval error: Adobe IMS authentication error: 500 - boom''),
       snd (wf_makeWorkfrontRequest sample_config ?n2 (''/task/'' @ ''5f1a'') ?o initial_state))"
    by (simp add: wf_makeWorkfrontRequest_def wf_ensureValidToken_def wf_getBearerToken_def
        wf_getBearerToken_try_def try_catch_def fetch_def initial_state_def string_of_nat_500)
  have r3: "wf_makeWorkfrontRequest sample_config ?n3 (''/task/'' @ ''5f1a'') ?o (cached ''T'') =
      (Inl (Error ''Workfront request error: Workfront API error: 404 - not found''),
       snd (wf_makeWorkfrontRequest sample_config ?n3 (''/task/'' @ ''5f1a'') ?o (cached ''T'')))"
    by (simp add: wf_makeWorkfrontRequest_def wf_makeWorkfrontRequest_try_def wf_requestOptions_def
        form_options_def try_catch_def fetch_def string_of_nat_404)
  have c1: "wf_callTool ?T1 ''create_task_predecessor'' (Some (JObj [])) initial_state
     = (Inr \<lparr> content = [\<lparr>item_type = ''text'',
                           item_text = ''Error: taskID is required to create task predecessors''\<rparr>],
             isError = Some True \<rparr>, initial_state)"
    using t [where wfT = ?T1 and cfg = sample_config and net = "script []" and a = "JObj []"
        and tid = None and st = initial_state,
        THEN conjunct2, THEN conjunct2, THEN conjunct2, THEN conjunct2, THEN conjunct1]
    by (simp add: sample_wf_tools_def js_not_def)
  have c2: "wf_callTool (sample_wf_tools sample_config ?n2) ''create_task_predecessor''
        (Some predecessor_args) initial_state
     = (Inr \<lparr> content = [\<lparr>item_type = ''text'',
                          item_text = ''Error: Task predecessor creation error: ''
                            @ message (Error ''Token retrieval error: Adobe IMS authentication error: 500 - boom'')\<rparr>],
            isError = Some True \<rparr>,
        snd (wf_makeWorkfrontRequest sample_config ?n2 (''/task/'' @ ''5f1a'') ?o initial_state))"
    using t [where wfT = "sample_wf_tools sample_config ?n2" and cfg = sample_config and net = ?n2
        and a = predecessor_args and tid = "Some (JStr ''5f1a'')" and p = "Some (JStr ''2fs+3d'')"
        and ts = "''5f1a''" and ps = "''2fs+3d''" and st = initial_state,
        THEN conjunct2, THEN conjunct2, THEN conjunct2, THEN conjunct2, THEN conjunct2, THEN conjunct1,
        rule_format, OF conjI, OF _ conjI, OF _ _ conjI, OF _ _ _ conjI, OF _ _ _ _ conjI,
        OF _ _ _ _ _ conjI, OF _ _ _ _ _ _ conjI, OF _ p(1) p(3) p(2) p(4) p(5) p(6) r2]
    by (simp add: sample_wf_tools_def)
  have c3: "wf_callTool (sample_wf_tools sample_config ?n3) ''create_task_predecessor''
        (Some predecessor_args) (cached ''T'')
     = (Inr \<lparr> content = [\<lparr>item_type = ''text'',
                          item_text = ''Error: Task predecessor creation error: ''
                            @ message (Error ''Workfront request error: Workfront API error: 404 - not found'')\<rparr>],
            isError = Some True \<rparr>,
        snd (wf_makeWorkfrontRequest sample_config ?n3 (''/task/'' @ ''5f1a'') ?o (cached ''T'')))"
    using t [where wfT = "sample_wf_tools sample_config ?n3" and cfg = sample_config and net = ?n3
        and a = predecessor_args and tid = "Some (JStr ''5f1a'')" and p = "Some (JStr ''2fs+3d'')"
        and ts = "''5f1a''" and ps = "''2fs+3d''" and st = "cached ''T''",
        THEN conjunct2, THEN conjunct2, THEN conjunct2, THEN conjunct2, THEN conjunct2, THEN conjunct1,
        rule_format, OF conjI, OF _ conjI, OF _ _ conjI, OF _ _ _ conjI, OF _ _ _ _ conjI,
        OF _ _ _ _ _ conjI, OF _ _ _ _ _ _ conjI, OF _ p(1) p(3) p(2) p(4) p(5) p(6) r3]
    by (simp add: sample_wf_tools_def)
  have d4: "aem_dispatch ?A ''delete_everything'' None initial_state
      = (Inl (Error ''Unknown tool: delete_everything''), initial_state)"
    by (simp add: aem_dispatch_def)
  from t [where aemT = ?A and name = "''delete_everything''"] d4
  have c4: "aem_callTool ?A ''delete_everything'' None initial_state
     = (Inr \<lparr> content = [\<lparr>item_type = ''text'',
                           item_text = ''Error: '' @ message (Error ''Unknown tool: delete_everything'')\<rparr>],
             isError = Some True \<rparr>, initial_state)"
    by blast
  have l: "wf_load sample_env = Loaded (WORKFRONT_CONFIG sample_env)"
    "aem_load sample_env = Loaded (AEM_CONFIG sample_env)"
    by (simp_all add: wf_load_def aem_load_def wf_missingEnvVars_def aem_missingEnvVars_def
        wf_requiredEnvVars_def aem_requiredEnvVars_def env_missing_def sample_env_def)
  have c1': "wf_callTool (sample_wf_tools (WORKFRONT_CONFIG sample_env) (script []))
       ''create_task_predecessor'' (Some (JObj [])) initial_state
     = (Inr \<lparr> content = [\<lparr>item_type = ''text'',
                           item_text = ''Error: taskID is required to create task predecessors''\<rparr>],
             isError = Some True \<rparr>, initial_state)"
    using t [where wfT = "sample_wf_tools (WORKFRONT_CONFIG sample_env) (script [])"
        and cfg = "WORKFRONT_CONFIG sample_env" and net = "script []" and a = "JObj []"
        and tid = None and st = initial_state,
        THEN conjunct2, THEN conjunct2, THEN conjunct2, THEN conjunct2, THEN conjunct1]
    by (simp add: sample_wf_tools_def js_not_def)
  have d5: "aem_dispatch (sample_aem_tools (AEM_CONFIG sample_env) (script [])) ''delete_everything'' None
      initial_state = (Inl (Error ''Unknown tool: delete_everything''), initial_state)"
    by (simp add: aem_dispatch_def)
  from t [where aemT = "sample_aem_tools (AEM_CONFIG sample_env) (script [])"
      and name = "''delete_everything''"] d5
  have c5: "aem_callTool (sample_aem_tools (AEM_CONFIG sample_env) (script [])) ''delete_everything'' None
      initial_state
     = (Inr \<lparr> content = [\<lparr>item_type = ''text'',
                           item_text = ''Error: '' @ message (Error ''Unknown tool: delete_everything'')\<rparr>],
             isError = Some True \<rparr>, initial_state)"
    by blast
  have m1: "wf_main sample_env sample_wf_tools (script []) [(''create_task_predecessor'', Some (JObj []))]
     = \<lparr> exit_code = None,
         responses = [Inr \<lparr> content = [\<lparr>item_type = ''text'',
                              item_text = ''Error: taskID is required to create task predecessors''\<rparr>],
                            isError = Some True \<rparr>],
         final = initial_state \<rparr>"
    using l(1) c1' by (simp add: wf_main_def)
  have m2: "responses (aem_main sample_env sample_aem_tools (script []) [(''delete_everything'', None)])
     = [Inr \<lparr> content = [\<lparr>item_type = ''text'', item_text = ''Error: Unknown tool: delete_everything''\<rparr>],
              isError = Some True \<rparr>]"
    using l(2) c5 by (simp add: aem_main_def)
  from c1 c2 c3 c4 m1 m2 show ?thesis by simp
qed

end
